theory Spec2Isabelle
  imports Main
begin

section \<open>GiftReservoir: wishlists, items and claims\<close>

text \<open>
  A shallow embedding of the server of the repository: the relational schema of
  \<^verbatim>\<open>shared/schema.ts\<close>, the queries of \<^verbatim>\<open>DatabaseStorage\<close> (server/storage.ts) and the
  request handlers of \<^verbatim>\<open>server/routes.ts\<close>.

  The database is a record of four tables, each a list of rows in insertion order, and of
  the three identity sequences. A query returns \<open>pg_error + result\<close>: \<open>Inl\<close> is the exception
  the driver throws, which every handler catches in its \<^verbatim>\<open>catch\<close> block and answers with
  status 500. A handler takes the database, the clock and the request and returns the
  response together with the database it leaves behind.
\<close>

subsection \<open>Path parameters and JavaScript's parseInt\<close>

text \<open>
  A JavaScript string is the list of its UTF-16 code units. \<open>parseInt\<close> is called with one
  argument, so the radix is 10 unless the string (after white space and sign) starts with
  \<^verbatim>\<open>0x\<close> or \<^verbatim>\<open>0X\<close>. The result \<open>None\<close> is \<^verbatim>\<open>NaN\<close>; \<open>Some n\<close> is the mathematical integer
  the digits denote. (The Number that JavaScript returns rounds integers above \<open>2^53\<close>, and
  is \<^verbatim>\<open>-0\<close> for \<^verbatim>\<open>"-0"\<close>; both are sent to the store as a value outside the range of the
  column type, respectively as 0, exactly as the unrounded integer is here.)
\<close>

type_synonym jsstring = "nat list"

definition js :: "string \<Rightarrow> jsstring" where
  "js s = map of_char s"

definition isStrWhiteSpaceChar :: "nat \<Rightarrow> bool" where
  "isStrWhiteSpaceChar c \<longleftrightarrow>
     c \<in> {9, 10, 11, 12, 13, 32, 160, 5760, 8232, 8233, 8239, 8287, 12288, 65279}
     \<or> (8192 \<le> c \<and> c \<le> 8202)"

definition radixDigit :: "nat \<Rightarrow> nat \<Rightarrow> nat option" where
  "radixDigit R c =
     (let v = (if 48 \<le> c \<and> c \<le> 57 then Some (c - 48)
               else if 97 \<le> c \<and> c \<le> 122 then Some (c - 87)
               else if 65 \<le> c \<and> c \<le> 90 then Some (c - 55)
               else None)
      in case v of None \<Rightarrow> None | Some d \<Rightarrow> if d < R then Some d else None)"

definition stripSign :: "jsstring \<Rightarrow> jsstring" where
  "stripSign S = (case S of [] \<Rightarrow> [] | c # cs \<Rightarrow> if c = 43 \<or> c = 45 then cs else S)"

definition hasHexPrefix :: "jsstring \<Rightarrow> bool" where
  "hasHexPrefix S = (case S of a # b # _ \<Rightarrow> a = 48 \<and> (b = 120 \<or> b = 88) | _ \<Rightarrow> False)"

definition parseInt :: "jsstring \<Rightarrow> int option" where
  "parseInt inputString =
     (let S = dropWhile isStrWhiteSpaceChar inputString;
          sign = (case S of c # _ \<Rightarrow> if c = 45 then - 1 else 1 | [] \<Rightarrow> (1::int));
          S1 = stripSign S;
          R = (if hasHexPrefix S1 then 16 else 10);
          S2 = (if hasHexPrefix S1 then drop 2 S1 else S1);
          Z = takeWhile (\<lambda>c. radixDigit R c \<noteq> None) S2
      in if Z = [] then None
         else Some (sign * int (foldl (\<lambda>a c. a * R + the (radixDigit R c)) 0 Z)))"

subsection \<open>The schema\<close>

text \<open>Timestamps are points of a discrete clock.\<close>

type_synonym timestamp = nat

record user =
  user_id :: string
  user_email :: "string option"
  user_firstName :: "string option"
  user_lastName :: "string option"
  user_profileImageUrl :: "string option"

record wishlist =
  wishlist_id :: int
  wishlist_userId :: string
  wishlist_name :: string
  wishlist_description :: "string option"
  wishlist_shareToken :: string
  wishlist_createdAt :: timestamp
  wishlist_updatedAt :: timestamp

record item =
  item_id :: int
  item_wishlistId :: int
  item_name :: string
  item_url :: "string option"
  item_description :: "string option"
  item_price :: "string option"
  item_imageUrl :: "string option"
  item_createdAt :: timestamp
  item_updatedAt :: timestamp

record claim =
  claim_id :: int
  claim_itemId :: int
  claim_userId :: string
  claim_claimedAt :: timestamp

record db =
  users :: "user list"
  wishlists :: "wishlist list"
  items :: "item list"
  claims :: "claim list"
  wishlists_id_seq :: int
  items_id_seq :: int
  claims_id_seq :: int

definition empty_db :: db where
  "empty_db = \<lparr>users = [], wishlists = [], items = [], claims = [],
     wishlists_id_seq = 1, items_id_seq = 1, claims_id_seq = 1\<rparr>"

text \<open>
  What the store raises. A parameter compared with a column of type \<^verbatim>\<open>integer\<close> must be
  a 32-bit integer; a \<^verbatim>\<open>varchar(n)\<close> holds at most \<open>n\<close> characters; \<^verbatim>\<open>unique()\<close> and
  \<^verbatim>\<open>references()\<close> are the uniqueness and foreign-key constraints of the schema.
\<close>

datatype pg_error =
  NumericValueOutOfRange
  | StringDataRightTruncation
  | NotNullViolation
  | UniqueViolation
  | ForeignKeyViolation

definition pg_integer :: "int \<Rightarrow> bool" where
  "pg_integer i \<longleftrightarrow> - 2147483648 \<le> i \<and> i \<le> 2147483647"

text \<open>
  Types of the values given to \<^verbatim>\<open>insert\<close> and \<^verbatim>\<open>update\<close>: every column that
  \<^verbatim>\<open>$inferInsert\<close> lists, \<open>None\<close> for a key that is absent. A nullable column carries an
  option of its own (\<open>Some None\<close> is \<^verbatim>\<open>null\<close>). The identity columns cannot be given.
\<close>

record InsertWishlist =
  iw_userId :: "string option"
  iw_name :: "string option"
  iw_description :: "string option option"
  iw_shareToken :: "string option"
  iw_createdAt :: "timestamp option"
  iw_updatedAt :: "timestamp option"

record InsertItem =
  ii_wishlistId :: "int option"
  ii_name :: "string option"
  ii_url :: "string option option"
  ii_description :: "string option option"
  ii_price :: "string option option"
  ii_imageUrl :: "string option option"
  ii_createdAt :: "timestamp option"
  ii_updatedAt :: "timestamp option"

record InsertClaim =
  ic_itemId :: int
  ic_userId :: string

subsection \<open>Constraints of the tables\<close>

definition wishlist_row_error :: "db \<Rightarrow> wishlist \<Rightarrow> pg_error option" where
  "wishlist_row_error s w =
     (if 255 < length (wishlist_name w) \<or> 64 < length (wishlist_shareToken w)
        then Some StringDataRightTruncation
      else if wishlist_userId w \<notin> user_id ` set (users s) then Some ForeignKeyViolation
      else None)"

definition item_row_error :: "db \<Rightarrow> item \<Rightarrow> pg_error option" where
  "item_row_error s it =
     (if 255 < length (item_name it)
         \<or> (case item_price it of None \<Rightarrow> False | Some p \<Rightarrow> 100 < length p)
        then Some StringDataRightTruncation
      else if item_wishlistId it \<notin> wishlist_id ` set (wishlists s) then Some ForeignKeyViolation
      else None)"

definition claim_row_error :: "db \<Rightarrow> claim \<Rightarrow> pg_error option" where
  "claim_row_error s c =
     (if claim_itemId c \<notin> item_id ` set (items s) then Some ForeignKeyViolation
      else if claim_userId c \<notin> user_id ` set (users s) then Some ForeignKeyViolation
      else None)"

text \<open>The referential action \<^verbatim>\<open>onDelete: "cascade"\<close> of items and claims.\<close>

definition delete_items_where :: "(item \<Rightarrow> bool) \<Rightarrow> db \<Rightarrow> db" where
  "delete_items_where P s =
     (let gone = map item_id (filter P (items s))
      in s\<lparr>items := filter (\<lambda>it. \<not> P it) (items s),
            claims := filter (\<lambda>c. claim_itemId c \<notin> set gone) (claims s)\<rparr>)"

definition delete_wishlists_where :: "(wishlist \<Rightarrow> bool) \<Rightarrow> db \<Rightarrow> db" where
  "delete_wishlists_where P s =
     (let gone = map wishlist_id (filter P (wishlists s))
      in delete_items_where (\<lambda>it. item_wishlistId it \<in> set gone)
           (s\<lparr>wishlists := filter (\<lambda>w. \<not> P w) (wishlists s)\<rparr>))"

subsection \<open>DatabaseStorage\<close>

text \<open>
  \<^verbatim>\<open>const [row] = await db.select()...\<close> takes the first row of the result, or
  \<^verbatim>\<open>undefined\<close>: that is \<open>find\<close>. A key of the \<^verbatim>\<open>set\<close> object that is absent leaves its
  column as it is.
\<close>

definition orKeep :: "'a option \<Rightarrow> 'a \<Rightarrow> 'a" where
  "orKeep v old = (case v of None \<Rightarrow> old | Some x \<Rightarrow> x)"

definition truthy :: "string option \<Rightarrow> bool" where
  "truthy v = (case v of None \<Rightarrow> False | Some x \<Rightarrow> x \<noteq> [])"

definition getUser :: "db \<Rightarrow> string \<Rightarrow> pg_error + user option" where
  "getUser s uid = Inr (find (\<lambda>u. user_id u = uid) (users s))"

definition getWishlists :: "db \<Rightarrow> string \<Rightarrow> pg_error + wishlist list" where
  "getWishlists s userId = Inr (filter (\<lambda>w. wishlist_userId w = userId) (wishlists s))"

definition getWishlist :: "db \<Rightarrow> int \<Rightarrow> string option \<Rightarrow> pg_error + wishlist option" where
  "getWishlist s wid userId =
     (if \<not> pg_integer wid then Inl NumericValueOutOfRange
      else if truthy userId
        then Inr (find (\<lambda>w. wishlist_id w = wid \<and> wishlist_userId w = the userId) (wishlists s))
      else Inr (find (\<lambda>w. wishlist_id w = wid) (wishlists s)))"

definition getWishlistByShareToken :: "db \<Rightarrow> string \<Rightarrow> pg_error + wishlist option" where
  "getWishlistByShareToken s token =
     Inr (find (\<lambda>w. wishlist_shareToken w = token) (wishlists s))"

text \<open>
  An insert draws the row's id from the identity sequence; the sequence keeps the
  value also when a constraint then rejects the row. \<open>shareToken\<close> is the value of
  \<^verbatim>\<open>randomBytes(32).toString("hex")\<close>, which the caller of the model supplies.
\<close>

definition insert_wishlist :: "db \<Rightarrow> timestamp \<Rightarrow> InsertWishlist \<Rightarrow> (pg_error + wishlist) \<times> db" where
  "insert_wishlist s now v =
     (let s1 = s\<lparr>wishlists_id_seq := wishlists_id_seq s + 1\<rparr>
      in case (iw_userId v, iw_name v, iw_shareToken v) of
           (Some u, Some n, Some t) \<Rightarrow>
             (let w = \<lparr>wishlist_id = wishlists_id_seq s, wishlist_userId = u, wishlist_name = n,
                        wishlist_description = orKeep (iw_description v) None,
                        wishlist_shareToken = t,
                        wishlist_createdAt = orKeep (iw_createdAt v) now,
                        wishlist_updatedAt = orKeep (iw_updatedAt v) now\<rparr>
              in case wishlist_row_error s w of
                   Some e \<Rightarrow> (Inl e, s1)
                 | None \<Rightarrow>
                     if t \<in> wishlist_shareToken ` set (wishlists s) then (Inl UniqueViolation, s1)
                     else (Inr w, s1\<lparr>wishlists := wishlists s @ [w]\<rparr>))
         | _ \<Rightarrow> (Inl NotNullViolation, s1))"

definition createWishlist ::
  "db \<Rightarrow> timestamp \<Rightarrow> string \<Rightarrow> InsertWishlist \<Rightarrow> (pg_error + wishlist) \<times> db" where
  "createWishlist s now shareToken data =
     insert_wishlist s now (data\<lparr>iw_shareToken := Some shareToken\<rparr>)"

definition set_wishlist :: "InsertWishlist \<Rightarrow> wishlist \<Rightarrow> wishlist" where
  "set_wishlist v w =
     w\<lparr>wishlist_userId := orKeep (iw_userId v) (wishlist_userId w),
       wishlist_name := orKeep (iw_name v) (wishlist_name w),
       wishlist_description := orKeep (iw_description v) (wishlist_description w),
       wishlist_shareToken := orKeep (iw_shareToken v) (wishlist_shareToken w),
       wishlist_createdAt := orKeep (iw_createdAt v) (wishlist_createdAt w),
       wishlist_updatedAt := orKeep (iw_updatedAt v) (wishlist_updatedAt w)\<rparr>"

definition updateWishlist ::
  "db \<Rightarrow> timestamp \<Rightarrow> int \<Rightarrow> string \<Rightarrow> InsertWishlist \<Rightarrow> (pg_error + wishlist option) \<times> db" where
  "updateWishlist s now wid userId data =
     (let v = data\<lparr>iw_updatedAt := Some now\<rparr>;
          hit = (\<lambda>w. wishlist_id w = wid \<and> wishlist_userId w = userId);
          rows = map (\<lambda>w. if hit w then set_wishlist v w else w) (wishlists s);
          returning = map (set_wishlist v) (filter hit (wishlists s))
      in if \<not> pg_integer wid then (Inl NumericValueOutOfRange, s)
         else case filter (\<lambda>e. e \<noteq> None) (map (wishlist_row_error s) returning) of
                e # _ \<Rightarrow> (Inl (the e), s)
              | [] \<Rightarrow>
                  if returning \<noteq> [] \<and> \<not> distinct (map wishlist_shareToken rows)
                    then (Inl UniqueViolation, s)
                  else (Inr (case returning of [] \<Rightarrow> None | w # _ \<Rightarrow> Some w),
                        s\<lparr>wishlists := rows\<rparr>))"

definition deleteWishlist :: "db \<Rightarrow> int \<Rightarrow> string \<Rightarrow> (pg_error + bool) \<times> db" where
  "deleteWishlist s wid userId =
     (let hit = (\<lambda>w. wishlist_id w = wid \<and> wishlist_userId w = userId);
          rowCount = length (filter hit (wishlists s))
      in if \<not> pg_integer wid then (Inl NumericValueOutOfRange, s)
         else (Inr (0 < rowCount), delete_wishlists_where hit s))"

definition getItem :: "db \<Rightarrow> int \<Rightarrow> pg_error + item option" where
  "getItem s iid =
     (if \<not> pg_integer iid then Inl NumericValueOutOfRange
      else Inr (find (\<lambda>it. item_id it = iid) (items s)))"

definition createItem :: "db \<Rightarrow> timestamp \<Rightarrow> InsertItem \<Rightarrow> (pg_error + item) \<times> db" where
  "createItem s now data =
     (let s1 = s\<lparr>items_id_seq := items_id_seq s + 1\<rparr>
      in case (ii_wishlistId data, ii_name data) of
           (Some wid, Some n) \<Rightarrow>
             (let it = \<lparr>item_id = items_id_seq s, item_wishlistId = wid, item_name = n,
                         item_url = orKeep (ii_url data) None,
                         item_description = orKeep (ii_description data) None,
                         item_price = orKeep (ii_price data) None,
                         item_imageUrl = orKeep (ii_imageUrl data) None,
                         item_createdAt = orKeep (ii_createdAt data) now,
                         item_updatedAt = orKeep (ii_updatedAt data) now\<rparr>
              in if \<not> pg_integer wid then (Inl NumericValueOutOfRange, s)
                 else case item_row_error s it of
                        Some e \<Rightarrow> (Inl e, s1)
                      | None \<Rightarrow> (Inr it, s1\<lparr>items := items s @ [it]\<rparr>))
         | _ \<Rightarrow> (Inl NotNullViolation, s1))"

definition set_item :: "InsertItem \<Rightarrow> item \<Rightarrow> item" where
  "set_item v it =
     it\<lparr>item_wishlistId := orKeep (ii_wishlistId v) (item_wishlistId it),
        item_name := orKeep (ii_name v) (item_name it),
        item_url := orKeep (ii_url v) (item_url it),
        item_description := orKeep (ii_description v) (item_description it),
        item_price := orKeep (ii_price v) (item_price it),
        item_imageUrl := orKeep (ii_imageUrl v) (item_imageUrl it),
        item_createdAt := orKeep (ii_createdAt v) (item_createdAt it),
        item_updatedAt := orKeep (ii_updatedAt v) (item_updatedAt it)\<rparr>"

text \<open>
  The item belongs to a wishlist owned by the user:
  \<^verbatim>\<open>wishlist_id IN (SELECT id FROM wishlists WHERE user_id = $wishlistUserId)\<close>.
\<close>

definition owned_item :: "db \<Rightarrow> int \<Rightarrow> string \<Rightarrow> item \<Rightarrow> bool" where
  "owned_item s iid wishlistUserId it \<longleftrightarrow>
     item_id it = iid
     \<and> item_wishlistId it
         \<in> set (map wishlist_id (filter (\<lambda>w. wishlist_userId w = wishlistUserId) (wishlists s)))"

definition updateItem ::
  "db \<Rightarrow> timestamp \<Rightarrow> int \<Rightarrow> string \<Rightarrow> InsertItem \<Rightarrow> (pg_error + item option) \<times> db" where
  "updateItem s now iid wishlistUserId data =
     (let v = data\<lparr>ii_updatedAt := Some now\<rparr>;
          hit = owned_item s iid wishlistUserId;
          rows = map (\<lambda>it. if hit it then set_item v it else it) (items s);
          returning = map (set_item v) (filter hit (items s))
      in if \<not> pg_integer iid then (Inl NumericValueOutOfRange, s)
         else case filter (\<lambda>e. e \<noteq> None) (map (item_row_error s) returning) of
                e # _ \<Rightarrow> (Inl (the e), s)
              | [] \<Rightarrow> (Inr (case returning of [] \<Rightarrow> None | it # _ \<Rightarrow> Some it),
                       s\<lparr>items := rows\<rparr>))"

definition deleteItem :: "db \<Rightarrow> int \<Rightarrow> string \<Rightarrow> (pg_error + bool) \<times> db" where
  "deleteItem s iid wishlistUserId =
     (let hit = owned_item s iid wishlistUserId;
          rowCount = length (filter hit (items s))
      in if \<not> pg_integer iid then (Inl NumericValueOutOfRange, s)
         else (Inr (0 < rowCount), delete_items_where hit s))"

definition getClaim :: "db \<Rightarrow> int \<Rightarrow> pg_error + claim option" where
  "getClaim s itemId =
     (if \<not> pg_integer itemId then Inl NumericValueOutOfRange
      else Inr (find (\<lambda>c. claim_itemId c = itemId) (claims s)))"

definition createClaim :: "db \<Rightarrow> timestamp \<Rightarrow> InsertClaim \<Rightarrow> (pg_error + claim) \<times> db" where
  "createClaim s now data =
     (let s1 = s\<lparr>claims_id_seq := claims_id_seq s + 1\<rparr>;
          c = \<lparr>claim_id = claims_id_seq s, claim_itemId = ic_itemId data,
               claim_userId = ic_userId data, claim_claimedAt = now\<rparr>
      in if \<not> pg_integer (ic_itemId data) then (Inl NumericValueOutOfRange, s)
         else if ic_itemId data \<in> claim_itemId ` set (claims s) then (Inl UniqueViolation, s1)
         else case claim_row_error s c of
                Some e \<Rightarrow> (Inl e, s1)
              | None \<Rightarrow> (Inr c, s1\<lparr>claims := claims s @ [c]\<rparr>))"

definition deleteClaim :: "db \<Rightarrow> int \<Rightarrow> string \<Rightarrow> (pg_error + bool) \<times> db" where
  "deleteClaim s itemId userId =
     (let hit = (\<lambda>c. claim_itemId c = itemId \<and> claim_userId c = userId);
          rowCount = length (filter hit (claims s))
      in if \<not> pg_integer itemId then (Inl NumericValueOutOfRange, s)
         else (Inr (0 < rowCount), s\<lparr>claims := filter (\<lambda>c. \<not> hit c) (claims s)\<rparr>))"

subsection \<open>Request bodies and their validation\<close>

text \<open>
  \<^verbatim>\<open>req.body\<close> is the parsed JSON of the request. The value of a number plays no role in
  what follows (only its type does).
\<close>

datatype json =
  JNull
  | JBool bool
  | JNumber int
  | JString string
  | JArray "json list"
  | JObject "(string \<times> json) list"

text \<open>
  The issues of a failed \<^verbatim>\<open>safeParse\<close>, each with the key it is about (the empty key for
  the body itself).
\<close>

datatype zod_issue =
  InvalidType string
  | TooSmall string
  | TooBig string
  | InvalidUrl string

text \<open>
  \<^verbatim>\<open>z.string()\<close> with refinements, on the value under a key of the body. A key that is
  absent is \<^verbatim>\<open>undefined\<close>, which an optional field accepts.
\<close>

definition zString ::
  "bool \<Rightarrow> (string \<Rightarrow> zod_issue list) \<Rightarrow> string \<Rightarrow> (string \<times> json) list
     \<Rightarrow> zod_issue list \<times> string option" where
  "zString optional refine key obj =
     (case map_of obj key of
        None \<Rightarrow> (if optional then [] else [InvalidType key], None)
      | Some (JString v) \<Rightarrow> (refine v, Some v)
      | Some _ \<Rightarrow> ([InvalidType key], None))"

definition nameRule :: "string \<Rightarrow> zod_issue list" where
  "nameRule v = (if length v < 1 then [TooSmall ''name'']
                 else if 255 < length v then [TooBig ''name''] else [])"

text \<open>
  \<^verbatim>\<open>z.string().url(...).optional().or(z.literal(""))\<close>: a string that is a URL, or the
  empty string. Which strings are URLs is decided by the validation library; the
  predicate is a parameter.
\<close>

definition urlRule :: "(string \<Rightarrow> bool) \<Rightarrow> string \<Rightarrow> string \<Rightarrow> zod_issue list" where
  "urlRule isURL key v = (if v = [] \<or> isURL v then [] else [InvalidUrl key])"

text \<open>
  \<^verbatim>\<open>insertWishlistSchema\<close> keeps the keys \<^verbatim>\<open>name\<close> and \<^verbatim>\<open>description\<close> of the body
  (\<^verbatim>\<open>omit\<close> removes the other columns, and an object schema drops the keys it does not
  list); \<open>partial\<close> is \<^verbatim>\<open>.partial()\<close>, under which \<^verbatim>\<open>name\<close> is optional too.
\<close>

definition insertWishlistSchema :: "bool \<Rightarrow> json \<Rightarrow> zod_issue list + InsertWishlist" where
  "insertWishlistSchema partial body =
     (case body of
        JObject obj \<Rightarrow>
          (let (e1, name) = zString partial nameRule ''name'' obj;
               (e2, description) = zString True (\<lambda>v. []) ''description'' obj
           in if e1 @ e2 \<noteq> [] then Inl (e1 @ e2)
              else Inr \<lparr>iw_userId = None, iw_name = name,
                        iw_description = map_option Some description,
                        iw_shareToken = None, iw_createdAt = None, iw_updatedAt = None\<rparr>)
      | _ \<Rightarrow> Inl [InvalidType []])"

definition insertItemSchema ::
  "(string \<Rightarrow> bool) \<Rightarrow> bool \<Rightarrow> json \<Rightarrow> zod_issue list + InsertItem" where
  "insertItemSchema isURL partial body =
     (case body of
        JObject obj \<Rightarrow>
          (let (e1, name) = zString partial nameRule ''name'' obj;
               (e2, url) = zString True (urlRule isURL ''url'') ''url'' obj;
               (e3, description) = zString True (\<lambda>v. []) ''description'' obj;
               (e4, price) = zString True (\<lambda>v. []) ''price'' obj;
               (e5, imageUrl) = zString True (urlRule isURL ''imageUrl'') ''imageUrl'' obj
           in if e1 @ e2 @ e3 @ e4 @ e5 \<noteq> [] then Inl (e1 @ e2 @ e3 @ e4 @ e5)
              else Inr \<lparr>ii_wishlistId = None, ii_name = name,
                        ii_url = map_option Some url,
                        ii_description = map_option Some description,
                        ii_price = map_option Some price,
                        ii_imageUrl = map_option Some imageUrl,
                        ii_createdAt = None, ii_updatedAt = None\<rparr>)
      | _ \<Rightarrow> Inl [InvalidType []])"

subsection \<open>Responses\<close>

text \<open>
  A response is its status and its JSON payload. \<open>ValidationMessage\<close> is the object
  \<^verbatim>\<open>{ message: fromZodError(error).message }\<close>, whose text the validation library
  composes from the issues; \<open>Message\<close> is \<^verbatim>\<open>{ message: "..." }\<close> with a literal of
  routes.ts.
\<close>

datatype payload =
  Message string
  | ValidationMessage "zod_issue list"
  | WishlistJson wishlist
  | WishlistItemsJson wishlist "(item \<times> (claim \<times> user) option) list"
  | ItemJson item
  | ClaimJson claim
  | NoContent

datatype response = Response nat payload

subsection \<open>The routes of server/routes.ts\<close>

text \<open>
  Every handler below runs behind \<^verbatim>\<open>isAuthenticated\<close>; \<open>userId\<close> is
  \<^verbatim>\<open>req.user.claims.sub\<close>, the identity the authentication middleware attached to the
  request. A handler is named by its method and path.
\<close>

text \<open>
  The rows of \<^verbatim>\<open>items LEFT JOIN claims LEFT JOIN users WHERE items.wishlist_id = $id\<close>, and
  their formatting: the claim is shown when both the claim and its user are there.
\<close>

definition wishlistItems :: "db \<Rightarrow> int \<Rightarrow> (item \<times> claim option \<times> user option) list" where
  "wishlistItems s wishlistId =
     concat (map (\<lambda>it.
       case filter (\<lambda>c. claim_itemId c = item_id it) (claims s) of
         [] \<Rightarrow> [(it, None, None)]
       | cs \<Rightarrow> concat (map (\<lambda>c.
           case filter (\<lambda>u. user_id u = claim_userId c) (users s) of
             [] \<Rightarrow> [(it, Some c, None)]
           | us \<Rightarrow> map (\<lambda>u. (it, Some c, Some u)) us) cs))
       (filter (\<lambda>it. item_wishlistId it = wishlistId) (items s)))"

definition formattedItems :: "db \<Rightarrow> int \<Rightarrow> (item \<times> (claim \<times> user) option) list" where
  "formattedItems s wishlistId =
     map (\<lambda>(it, c, u). (it, case (c, u) of (Some c', Some u') \<Rightarrow> Some (c', u') | _ \<Rightarrow> None))
       (wishlistItems s wishlistId)"

definition GET_wishlists_id :: "db \<Rightarrow> string \<Rightarrow> jsstring \<Rightarrow> response \<times> db" where
  "GET_wishlists_id s userId param =
     (case parseInt param of
        None \<Rightarrow> (Response 400 (Message ''Invalid wishlist ID''), s)
      | Some wishlistId \<Rightarrow>
          (case getWishlist s wishlistId (Some userId) of
             Inl e \<Rightarrow> (Response 500 (Message ''Failed to fetch wishlist''), s)
           | Inr None \<Rightarrow> (Response 404 (Message ''Wishlist not found''), s)
           | Inr (Some wishlist) \<Rightarrow>
               (Response 200 (WishlistItemsJson wishlist (formattedItems s wishlistId)), s)))"

definition POST_wishlists ::
  "db \<Rightarrow> timestamp \<Rightarrow> string \<Rightarrow> json \<Rightarrow> string \<Rightarrow> response \<times> db" where
  "POST_wishlists s now userId body shareToken =
     (case insertWishlistSchema False body of
        Inl issues \<Rightarrow> (Response 400 (ValidationMessage issues), s)
      | Inr data \<Rightarrow>
          (case createWishlist s now shareToken (data\<lparr>iw_userId := Some userId\<rparr>) of
             (Inl e, s') \<Rightarrow> (Response 500 (Message ''Failed to create wishlist''), s')
           | (Inr wishlist, s') \<Rightarrow> (Response 201 (WishlistJson wishlist), s')))"

definition PATCH_wishlists_id ::
  "db \<Rightarrow> timestamp \<Rightarrow> string \<Rightarrow> jsstring \<Rightarrow> json \<Rightarrow> response \<times> db" where
  "PATCH_wishlists_id s now userId param body =
     (case parseInt param of
        None \<Rightarrow> (Response 400 (Message ''Invalid wishlist ID''), s)
      | Some wishlistId \<Rightarrow>
          (case insertWishlistSchema True body of
             Inl issues \<Rightarrow> (Response 400 (ValidationMessage issues), s)
           | Inr data \<Rightarrow>
               (case updateWishlist s now wishlistId userId data of
                  (Inl e, s') \<Rightarrow> (Response 500 (Message ''Failed to update wishlist''), s')
                | (Inr None, s') \<Rightarrow> (Response 404 (Message ''Wishlist not found''), s')
                | (Inr (Some wishlist), s') \<Rightarrow> (Response 200 (WishlistJson wishlist), s'))))"

definition DELETE_wishlists_id :: "db \<Rightarrow> string \<Rightarrow> jsstring \<Rightarrow> response \<times> db" where
  "DELETE_wishlists_id s userId param =
     (case parseInt param of
        None \<Rightarrow> (Response 400 (Message ''Invalid wishlist ID''), s)
      | Some wishlistId \<Rightarrow>
          (case deleteWishlist s wishlistId userId of
             (Inl e, s') \<Rightarrow> (Response 500 (Message ''Failed to delete wishlist''), s')
           | (Inr deleted, s') \<Rightarrow>
               if \<not> deleted then (Response 404 (Message ''Wishlist not found''), s')
               else (Response 204 NoContent, s')))"

definition POST_wishlists_items ::
  "(string \<Rightarrow> bool) \<Rightarrow> db \<Rightarrow> timestamp \<Rightarrow> string \<Rightarrow> jsstring \<Rightarrow> json \<Rightarrow> response \<times> db" where
  "POST_wishlists_items isURL s now userId param body =
     (case parseInt param of
        None \<Rightarrow> (Response 400 (Message ''Invalid wishlist ID''), s)
      | Some wishlistId \<Rightarrow>
          (case getWishlist s wishlistId (Some userId) of
             Inl e \<Rightarrow> (Response 500 (Message ''Failed to create item''), s)
           | Inr None \<Rightarrow> (Response 404 (Message ''Wishlist not found''), s)
           | Inr (Some wishlist) \<Rightarrow>
               (case insertItemSchema isURL False body of
                  Inl issues \<Rightarrow> (Response 400 (ValidationMessage issues), s)
                | Inr data \<Rightarrow>
                    (case createItem s now (data\<lparr>ii_wishlistId := Some wishlistId\<rparr>) of
                       (Inl e, s') \<Rightarrow> (Response 500 (Message ''Failed to create item''), s')
                     | (Inr it, s') \<Rightarrow> (Response 201 (ItemJson it), s')))))"

definition PATCH_items_id ::
  "(string \<Rightarrow> bool) \<Rightarrow> db \<Rightarrow> timestamp \<Rightarrow> string \<Rightarrow> jsstring \<Rightarrow> json \<Rightarrow> response \<times> db" where
  "PATCH_items_id isURL s now userId param body =
     (case parseInt param of
        None \<Rightarrow> (Response 400 (Message ''Invalid item ID''), s)
      | Some itemId \<Rightarrow>
          (case insertItemSchema isURL True body of
             Inl issues \<Rightarrow> (Response 400 (ValidationMessage issues), s)
           | Inr data \<Rightarrow>
               (case updateItem s now itemId userId data of
                  (Inl e, s') \<Rightarrow> (Response 500 (Message ''Failed to update item''), s')
                | (Inr None, s') \<Rightarrow> (Response 404 (Message ''Item not found''), s')
                | (Inr (Some it), s') \<Rightarrow> (Response 200 (ItemJson it), s'))))"

definition DELETE_items_id :: "db \<Rightarrow> string \<Rightarrow> jsstring \<Rightarrow> response \<times> db" where
  "DELETE_items_id s userId param =
     (case parseInt param of
        None \<Rightarrow> (Response 400 (Message ''Invalid item ID''), s)
      | Some itemId \<Rightarrow>
          (case deleteItem s itemId userId of
             (Inl e, s') \<Rightarrow> (Response 500 (Message ''Failed to delete item''), s')
           | (Inr deleted, s') \<Rightarrow>
               if \<not> deleted then (Response 404 (Message ''Item not found''), s')
               else (Response 204 NoContent, s')))"

text \<open>
  The claim handler reads three times and then inserts, with an \<^verbatim>\<open>await\<close> before each
  step. It is written in two parts, the checks (lines 329 to 353; \<open>None\<close> when all of them
  pass) and the insert (lines 355 to 364), so that a run in which another request is
  served between the two can be written down as well. \<open>POST_items_claim\<close> is the handler
  running alone.
\<close>

definition claim_checks :: "db \<Rightarrow> string \<Rightarrow> int \<Rightarrow> response option" where
  "claim_checks s userId itemId =
     (case getItem s itemId of
        Inl e \<Rightarrow> Some (Response 500 (Message ''Failed to claim item''))
      | Inr None \<Rightarrow> Some (Response 404 (Message ''Item not found''))
      | Inr (Some it) \<Rightarrow>
          (case getClaim s itemId of
             Inl e \<Rightarrow> Some (Response 500 (Message ''Failed to claim item''))
           | Inr (Some existingClaim) \<Rightarrow> Some (Response 400 (Message ''Item is already claimed''))
           | Inr None \<Rightarrow>
               (case find (\<lambda>w. wishlist_id w = item_wishlistId it) (wishlists s) of
                  Some wishlist \<Rightarrow>
                    if wishlist_userId wishlist = userId
                      then Some (Response 400
                                   (Message ''You cannot claim items from your own wishlist''))
                    else None
                | None \<Rightarrow> None)))"

definition claim_insert :: "db \<Rightarrow> timestamp \<Rightarrow> string \<Rightarrow> int \<Rightarrow> response \<times> db" where
  "claim_insert s now userId itemId =
     (case createClaim s now \<lparr>ic_itemId = itemId, ic_userId = userId\<rparr> of
        (Inl e, s') \<Rightarrow> (Response 500 (Message ''Failed to claim item''), s')
      | (Inr c, s') \<Rightarrow> (Response 201 (ClaimJson c), s'))"

definition POST_items_claim :: "db \<Rightarrow> timestamp \<Rightarrow> string \<Rightarrow> jsstring \<Rightarrow> response \<times> db" where
  "POST_items_claim s now userId param =
     (case parseInt param of
        None \<Rightarrow> (Response 400 (Message ''Invalid item ID''), s)
      | Some itemId \<Rightarrow>
          (case claim_checks s userId itemId of
             Some r \<Rightarrow> (r, s)
           | None \<Rightarrow> claim_insert s now userId itemId))"

definition DELETE_items_claim :: "db \<Rightarrow> string \<Rightarrow> jsstring \<Rightarrow> response \<times> db" where
  "DELETE_items_claim s userId param =
     (case parseInt param of
        None \<Rightarrow> (Response 400 (Message ''Invalid item ID''), s)
      | Some itemId \<Rightarrow>
          (case deleteClaim s itemId userId of
             (Inl e, s') \<Rightarrow> (Response 500 (Message ''Failed to unclaim item''), s')
           | (Inr deleted, s') \<Rightarrow>
               if \<not> deleted then (Response 404 (Message ''Claim not found''), s')
               else (Response 204 NoContent, s')))"

subsection \<open>Requests\<close>

text \<open>
  A request names its route and carries the authenticated identity, the path parameter
  and the body, as far as the route has them; \<open>CreateWishlist\<close> carries the share token
  that is drawn for it.
\<close>

datatype request =
  GetWishlist string jsstring
  | CreateWishlist string json string
  | UpdateWishlist string jsstring json
  | DeleteWishlist string jsstring
  | CreateItem string jsstring json
  | UpdateItem string jsstring json
  | DeleteItem string jsstring
  | ClaimItem string jsstring
  | UnclaimItem string jsstring

fun handle :: "(string \<Rightarrow> bool) \<Rightarrow> db \<Rightarrow> timestamp \<Rightarrow> request \<Rightarrow> response \<times> db" where
  "handle isURL s now (GetWishlist u p) = GET_wishlists_id s u p"
| "handle isURL s now (CreateWishlist u body tok) = POST_wishlists s now u body tok"
| "handle isURL s now (UpdateWishlist u p body) = PATCH_wishlists_id s now u p body"
| "handle isURL s now (DeleteWishlist u p) = DELETE_wishlists_id s u p"
| "handle isURL s now (CreateItem u p body) = POST_wishlists_items isURL s now u p body"
| "handle isURL s now (UpdateItem u p body) = PATCH_items_id isURL s now u p body"
| "handle isURL s now (DeleteItem u p) = DELETE_items_id s u p"
| "handle isURL s now (ClaimItem u p) = POST_items_claim s now u p"
| "handle isURL s now (UnclaimItem u p) = DELETE_items_claim s u p"

text \<open>Requests served one after the other, each at its own time.\<close>

fun serve :: "(string \<Rightarrow> bool) \<Rightarrow> db \<Rightarrow> (timestamp \<times> request) list \<Rightarrow> db" where
  "serve isURL s [] = s"
| "serve isURL s ((now, r) # rs) = serve isURL (snd (handle isURL s now r)) rs"

fun path_id :: "request \<Rightarrow> jsstring option" where
  "path_id (GetWishlist u p) = Some p"
| "path_id (CreateWishlist u body tok) = None"
| "path_id (UpdateWishlist u p body) = Some p"
| "path_id (DeleteWishlist u p) = Some p"
| "path_id (CreateItem u p body) = Some p"
| "path_id (UpdateItem u p body) = Some p"
| "path_id (DeleteItem u p) = Some p"
| "path_id (ClaimItem u p) = Some p"
| "path_id (UnclaimItem u p) = Some p"

fun with_path_id :: "jsstring \<Rightarrow> request \<Rightarrow> request" where
  "with_path_id q (GetWishlist u p) = GetWishlist u q"
| "with_path_id q (CreateWishlist u body tok) = CreateWishlist u body tok"
| "with_path_id q (UpdateWishlist u p body) = UpdateWishlist u q body"
| "with_path_id q (DeleteWishlist u p) = DeleteWishlist u q"
| "with_path_id q (CreateItem u p body) = CreateItem u q body"
| "with_path_id q (UpdateItem u p body) = UpdateItem u q body"
| "with_path_id q (DeleteItem u p) = DeleteItem u q"
| "with_path_id q (ClaimItem u p) = ClaimItem u q"
| "with_path_id q (UnclaimItem u p) = UnclaimItem u q"

subsection \<open>Properties of states and parameters\<close>

text \<open>At most one claim row for every item.\<close>

definition claims_unique :: "db \<Rightarrow> bool" where
  "claims_unique s \<longleftrightarrow> distinct (map claim_itemId (claims s))"

text \<open>No item without its wishlist, no claim without its item.\<close>

definition no_orphans :: "db \<Rightarrow> bool" where
  "no_orphans s \<longleftrightarrow>
     list_all (\<lambda>it. item_wishlistId it \<in> set (map wishlist_id (wishlists s))) (items s)
     \<and> list_all (\<lambda>c. claim_itemId c \<in> set (map item_id (items s))) (claims s)"

text \<open>The owner of the wishlist that the item with this id belongs to.\<close>

definition item_owner :: "db \<Rightarrow> int \<Rightarrow> string option" where
  "item_owner s itemId =
     (case find (\<lambda>it. item_id it = itemId) (items s) of
        None \<Rightarrow> None
      | Some it \<Rightarrow>
          map_option wishlist_userId
            (find (\<lambda>w. wishlist_id w = item_wishlistId it) (wishlists s)))"

text \<open>The columns of a wishlist and of an item that no update may touch.\<close>

definition wishlist_frame :: "wishlist \<Rightarrow> int \<times> string \<times> string \<times> timestamp" where
  "wishlist_frame w =
     (wishlist_id w, wishlist_userId w, wishlist_shareToken w, wishlist_createdAt w)"

definition item_frame :: "item \<Rightarrow> int \<times> int \<times> timestamp" where
  "item_frame it = (item_id it, item_wishlistId it, item_createdAt it)"

text \<open>The two responses of the Invalid-ID branches.\<close>

definition invalid_id :: "response \<Rightarrow> bool" where
  "invalid_id r \<longleftrightarrow>
     r = Response 400 (Message ''Invalid wishlist ID'')
     \<or> r = Response 400 (Message ''Invalid item ID'')"

text \<open>
  A parameter that begins with a decimal integer: a decimal digit, possibly after a
  sign.
\<close>

definition decimalDigit :: "nat \<Rightarrow> bool" where
  "decimalDigit c \<longleftrightarrow> 48 \<le> c \<and> c \<le> 57"

definition decimalIntegerPrefix :: "jsstring \<Rightarrow> bool" where
  "decimalIntegerPrefix p = (case stripSign p of [] \<Rightarrow> False | c # _ \<Rightarrow> decimalDigit c)"

text \<open>
  What \<open>parseInt\<close> needs in order to return a number: after leading white space and an
  optional sign, either \<^verbatim>\<open>0x\<close> or \<^verbatim>\<open>0X\<close> and then a hexadecimal digit, or (without such a
  prefix) a decimal digit.
\<close>

definition hexDigit :: "nat \<Rightarrow> bool" where
  "hexDigit c \<longleftrightarrow> decimalDigit c \<or> (97 \<le> c \<and> c \<le> 102) \<or> (65 \<le> c \<and> c \<le> 70)"

definition numericPrefix :: "jsstring \<Rightarrow> bool" where
  "numericPrefix p =
     (case stripSign (dropWhile isStrWhiteSpaceChar p) of
        [] \<Rightarrow> False
      | [c] \<Rightarrow> decimalDigit c
      | a # b # rest \<Rightarrow>
          if a = 48 \<and> (b = 120 \<or> b = 88)
            then (case rest of [] \<Rightarrow> False | c # _ \<Rightarrow> hexDigit c)
          else decimalDigit a)"

subsection \<open>A small database\<close>

text \<open>
  Three users; alice owns the wishlist Birthday with the item Headphones, which nobody
  has claimed in \<open>shop\<close> and which bob has claimed in \<open>shop_claimed\<close>.
\<close>

definition person :: "string \<Rightarrow> user" where
  "person uid = \<lparr>user_id = uid, user_email = None, user_firstName = None,
     user_lastName = None, user_profileImageUrl = None\<rparr>"

definition birthday :: wishlist where
  "birthday = \<lparr>wishlist_id = 1, wishlist_userId = ''alice'', wishlist_name = ''Birthday'',
     wishlist_description = None, wishlist_shareToken = ''c0ffee'',
     wishlist_createdAt = 1, wishlist_updatedAt = 1\<rparr>"

definition headphones :: item where
  "headphones = \<lparr>item_id = 1, item_wishlistId = 1, item_name = ''Headphones'',
     item_url = None, item_description = None, item_price = Some ''$99.99'',
     item_imageUrl = None, item_createdAt = 2, item_updatedAt = 2\<rparr>"

definition shop :: db where
  "shop = \<lparr>users = [person ''alice'', person ''bob'', person ''carol''],
     wishlists = [birthday], items = [headphones], claims = [],
     wishlists_id_seq = 2, items_id_seq = 2, claims_id_seq = 1\<rparr>"

definition bobs_claim :: claim where
  "bobs_claim = \<lparr>claim_id = 1, claim_itemId = 1, claim_userId = ''bob'', claim_claimedAt = 3\<rparr>"

definition shop_claimed :: db where
  "shop_claimed = shop\<lparr>claims := [bobs_claim], claims_id_seq := 2\<rparr>"

text \<open>
  A request body with keys that the schemas do not list, next to a new name.
\<close>

definition hostile_body :: json where
  "hostile_body = JObject [(''name'', JString ''Mine''), (''shareToken'', JString ''guess''),
     (''userId'', JString ''bob''), (''id'', JNumber 7), (''createdAt'', JNumber 0),
     (''wishlistId'', JNumber 9)]"

section \<open>Properties\<close>

subsection \<open>Lookups and evaluation\<close>

lemmas parseInt_defs = parseInt_def js_def isStrWhiteSpaceChar_def stripSign_def
  hasHexPrefix_def radixDigit_def Let_def

lemmas shop_defs = shop_def shop_claimed_def person_def birthday_def headphones_def
  bobs_claim_def

lemma find_item_None: "find (\<lambda>it. item_id it = i) xs = None \<longleftrightarrow> i \<notin> item_id ` set xs"
  by (auto simp: find_None_iff)

lemma find_claim_None:
  "find (\<lambda>c. claim_itemId c = i) xs = None \<longleftrightarrow> i \<notin> claim_itemId ` set xs"
  by (auto simp: find_None_iff)

lemma find_item_Some:
  assumes "i \<in> item_id ` set xs"
  obtains it where "find (\<lambda>it. item_id it = i) xs = Some it"
  using assms find_item_None [of i xs] by (cases "find (\<lambda>it. item_id it = i) xs") auto

lemma find_claim_Some:
  assumes "i \<in> claim_itemId ` set xs"
  obtains c where "find (\<lambda>c. claim_itemId c = i) xs = Some c"
  using assms find_claim_None [of i xs] by (cases "find (\<lambda>c. claim_itemId c = i) xs") auto

lemma parse_1: "parseInt (js ''1'') = Some 1"
  by (simp add: parseInt_defs)

lemma pg_integer_1: "pg_integer 1"
  by (simp add: pg_integer_def)

subsection \<open>Claiming an item\<close>

text \<open>
  C1. A claim request by the user \<open>u\<close> (who has a row in \<open>users\<close>, as every identity the
  authentication collaborator has signed in) on the item id \<open>itemId\<close> of the column type:
  if no item has this id the answer is 404 \<open>Item not found\<close>; else if a claim row for the
  item exists it is 400 \<open>Item is already claimed\<close>; else if the owner of the item's
  wishlist is \<open>u\<close> it is 400 \<open>You cannot claim items from your own wishlist\<close>; in these
  three cases the database is unchanged. Otherwise exactly one claim row is appended, with
  \<open>claim_userId = u\<close>, \<open>claim_itemId = itemId\<close> and \<open>claim_claimedAt = now\<close>, and the
  answer is 201 with this row.
\<close>

theorem claim_order:
  assumes "parseInt param = Some itemId" and "pg_integer itemId"
    and "u \<in> user_id ` set (users s)"
  shows "(itemId \<notin> item_id ` set (items s) \<longrightarrow>
            POST_items_claim s now u param = (Response 404 (Message ''Item not found''), s))
       \<and> (itemId \<in> item_id ` set (items s) \<and> itemId \<in> claim_itemId ` set (claims s) \<longrightarrow>
            POST_items_claim s now u param =
              (Response 400 (Message ''Item is already claimed''), s))
       \<and> (itemId \<in> item_id ` set (items s) \<and> itemId \<notin> claim_itemId ` set (claims s)
            \<and> item_owner s itemId = Some u \<longrightarrow>
            POST_items_claim s now u param =
              (Response 400 (Message ''You cannot claim items from your own wishlist''), s))
       \<and> (itemId \<in> item_id ` set (items s) \<and> itemId \<notin> claim_itemId ` set (claims s)
            \<and> item_owner s itemId \<noteq> Some u \<longrightarrow>
            (let c = \<lparr>claim_id = claims_id_seq s, claim_itemId = itemId, claim_userId = u,
                      claim_claimedAt = now\<rparr>
             in POST_items_claim s now u param =
                  (Response 201 (ClaimJson c),
                   s\<lparr>claims_id_seq := claims_id_seq s + 1, claims := claims s @ [c]\<rparr>)))"
proof (intro conjI impI)
  assume "itemId \<notin> item_id ` set (items s)"
  then have "find (\<lambda>it. item_id it = itemId) (items s) = None"
    by (simp add: find_item_None)
  with assms show
    "POST_items_claim s now u param = (Response 404 (Message ''Item not found''), s)"
    by (simp add: POST_items_claim_def claim_checks_def getItem_def)
next
  assume a: "itemId \<in> item_id ` set (items s) \<and> itemId \<in> claim_itemId ` set (claims s)"
  then obtain it where "find (\<lambda>it. item_id it = itemId) (items s) = Some it"
    using find_item_Some by blast
  moreover from a obtain c where "find (\<lambda>c. claim_itemId c = itemId) (claims s) = Some c"
    using find_claim_Some by blast
  ultimately show
    "POST_items_claim s now u param = (Response 400 (Message ''Item is already claimed''), s)"
    using assms by (simp add: POST_items_claim_def claim_checks_def getItem_def getClaim_def)
next
  assume a: "itemId \<in> item_id ` set (items s) \<and> itemId \<notin> claim_itemId ` set (claims s)
            \<and> item_owner s itemId = Some u"
  then obtain it where "find (\<lambda>it. item_id it = itemId) (items s) = Some it"
    using find_item_Some by blast
  moreover from a have "find (\<lambda>c. claim_itemId c = itemId) (claims s) = None"
    by (simp add: find_claim_None)
  ultimately show "POST_items_claim s now u param =
      (Response 400 (Message ''You cannot claim items from your own wishlist''), s)"
    using assms a
    by (auto simp: POST_items_claim_def claim_checks_def getItem_def getClaim_def
        item_owner_def split: option.splits)
next
  assume a: "itemId \<in> item_id ` set (items s) \<and> itemId \<notin> claim_itemId ` set (claims s)
            \<and> item_owner s itemId \<noteq> Some u"
  then obtain it where "find (\<lambda>it. item_id it = itemId) (items s) = Some it"
    using find_item_Some by blast
  moreover from a have "find (\<lambda>c. claim_itemId c = itemId) (claims s) = None"
    by (simp add: find_claim_None)
  ultimately show
    "let c = \<lparr>claim_id = claims_id_seq s, claim_itemId = itemId, claim_userId = u,
              claim_claimedAt = now\<rparr>
     in POST_items_claim s now u param =
          (Response 201 (ClaimJson c),
           s\<lparr>claims_id_seq := claims_id_seq s + 1, claims := claims s @ [c]\<rparr>)"
    using assms a
    by (auto simp: POST_items_claim_def claim_checks_def getItem_def getClaim_def
        item_owner_def claim_insert_def createClaim_def claim_row_error_def Let_def
        split: option.splits)
qed

theorem claim_order_witness:
  "parseInt (js ''1'') = Some 1 \<and> pg_integer 1 \<and> ''bob'' \<in> user_id ` set (users shop)
   \<and> 1 \<in> item_id ` set (items shop) \<and> 1 \<notin> claim_itemId ` set (claims shop)
   \<and> item_owner shop 1 \<noteq> Some ''bob''
   \<and> POST_items_claim shop 5 ''bob'' (js ''1'') =
       (Response 201 (ClaimJson \<lparr>claim_id = 1, claim_itemId = 1, claim_userId = ''bob'',
                                  claim_claimedAt = 5\<rparr>),
        shop\<lparr>claims_id_seq := 2,
             claims := [\<lparr>claim_id = 1, claim_itemId = 1, claim_userId = ''bob'',
                          claim_claimedAt = 5\<rparr>]\<rparr>)"
proof -
  have u: "''bob'' \<in> user_id ` set (users shop)" by (simp add: shop_defs)
  have i: "1 \<in> item_id ` set (items shop)" by (simp add: shop_defs)
  have c: "1 \<notin> claim_itemId ` set (claims shop)" by (simp add: shop_defs)
  have o: "item_owner shop 1 \<noteq> Some ''bob''" by (simp add: item_owner_def shop_defs)
  have e: "claims shop = []" "claims_id_seq shop = 1" by (simp_all add: shop_defs)
  show ?thesis
    using claim_order [OF parse_1 pg_integer_1 u, of 5] parse_1 pg_integer_1 u i c o e
    by (simp add: Let_def)
qed

text \<open>
  C2, as the code has it. When \<open>u\<close> owns the wishlist of the item, a claim attempt by \<open>u\<close>
  never succeeds and leaves the database unchanged: it is answered 400
  \<open>You cannot claim items from your own wishlist\<close> when the item is unclaimed, and 400
  \<open>Item is already claimed\<close> when the item is claimed (the check for an existing claim
  comes first).
\<close>

theorem owner_never_claims:
  assumes "parseInt param = Some itemId" and "pg_integer itemId"
    and "item_owner s itemId = Some u"
  shows "POST_items_claim s now u param =
     (if itemId \<in> claim_itemId ` set (claims s)
        then Response 400 (Message ''Item is already claimed'')
      else Response 400 (Message ''You cannot claim items from your own wishlist''), s)"
  using assms
  by (auto simp: POST_items_claim_def claim_checks_def getItem_def getClaim_def item_owner_def
      find_claim_None [symmetric] split: option.splits)

theorem owner_never_claims_witness:
  "parseInt (js ''1'') = Some 1 \<and> pg_integer 1 \<and> item_owner shop 1 = Some ''alice''
   \<and> POST_items_claim shop 9 ''alice'' (js ''1'') =
       (Response 400 (Message ''You cannot claim items from your own wishlist''), shop)"
proof -
  have o: "item_owner shop 1 = Some ''alice''" by (simp add: item_owner_def shop_defs)
  have c: "1 \<notin> claim_itemId ` set (claims shop)" by (simp add: shop_defs)
  show ?thesis
    using owner_never_claims [OF parse_1 pg_integer_1 o, of 9] parse_1 pg_integer_1 o c
    by simp
qed

text \<open>
  C2 as stated fails: alice owns the wishlist of item 1, which bob has claimed; her claim
  attempt is answered \<open>Item is already claimed\<close>, not with the self-claim message.
\<close>

theorem owner_claim_of_claimed_item:
  "item_owner shop_claimed 1 = Some ''alice''
   \<and> fst (POST_items_claim shop_claimed 9 ''alice'' (js ''1'')) =
       Response 400 (Message ''Item is already claimed'')
   \<and> fst (POST_items_claim shop_claimed 9 ''alice'' (js ''1'')) \<noteq>
       Response 400 (Message ''You cannot claim items from your own wishlist'')"
  by (simp add: parse_1 POST_items_claim_def claim_checks_def getItem_def getClaim_def
      item_owner_def pg_integer_def shop_defs)

text \<open>
  C3, as the code has it. When the insert of the claim row meets an existing claim row
  for the item (another request has claimed the item since the checks), the store
  rejects it with a uniqueness violation, which the handler's \<^verbatim>\<open>catch\<close> block answers
  with 500 \<open>Failed to claim item\<close>; no row is written (the sequence has moved on).
\<close>

theorem lost_race_is_500:
  assumes "pg_integer itemId" and "itemId \<in> claim_itemId ` set (claims s)"
  shows "createClaim s now \<lparr>ic_itemId = itemId, ic_userId = u\<rparr> =
           (Inl UniqueViolation, s\<lparr>claims_id_seq := claims_id_seq s + 1\<rparr>)
       \<and> claim_insert s now u itemId =
           (Response 500 (Message ''Failed to claim item''),
            s\<lparr>claims_id_seq := claims_id_seq s + 1\<rparr>)"
  using assms by (simp add: claim_insert_def createClaim_def Let_def)

theorem lost_race_is_500_witness:
  "pg_integer 1 \<and> 1 \<in> claim_itemId ` set (claims shop_claimed)
   \<and> claim_insert shop_claimed 6 ''carol'' 1 =
       (Response 500 (Message ''Failed to claim item''),
        shop_claimed\<lparr>claims_id_seq := claims_id_seq shop_claimed + 1\<rparr>)"
proof -
  have c: "1 \<in> claim_itemId ` set (claims shop_claimed)" by (simp add: shop_defs)
  show ?thesis
    using lost_race_is_500 [OF pg_integer_1 c, of 6 "''carol''"] pg_integer_1 c by simp
qed

text \<open>
  C3 as stated fails: bob's checks pass on \<open>shop\<close>, carol's request is served, and
  bob's insert is then answered 500, not \<open>Item is already claimed\<close>.
\<close>

theorem lost_race_counterexample:
  "claim_checks shop ''bob'' 1 = None
   \<and> snd (POST_items_claim shop 5 ''carol'' (js ''1'')) =
       shop\<lparr>claims := [\<lparr>claim_id = 1, claim_itemId = 1, claim_userId = ''carol'',
                          claim_claimedAt = 5\<rparr>], claims_id_seq := 2\<rparr>
   \<and> fst (claim_insert (snd (POST_items_claim shop 5 ''carol'' (js ''1''))) 6 ''bob'' 1) =
       Response 500 (Message ''Failed to claim item'')
   \<and> fst (claim_insert (snd (POST_items_claim shop 5 ''carol'' (js ''1''))) 6 ''bob'' 1) \<noteq>
       Response 400 (Message ''Item is already claimed'')"
  by (simp add: parse_1 POST_items_claim_def claim_checks_def getItem_def getClaim_def
      claim_insert_def createClaim_def claim_row_error_def Let_def pg_integer_def shop_defs)

subsection \<open>Releasing a claim\<close>

lemma the_claim_row:
  assumes "claims_unique s" and "find (\<lambda>c. claim_itemId c = i) (claims s) = Some c"
    and "c' \<in> set (claims s)"
  shows "claim_itemId c' = i \<longleftrightarrow> c' = c"
proof -
  from assms(2) have c: "c \<in> set (claims s)" "claim_itemId c = i"
    by (auto simp: find_Some_iff)
  from assms(1) have "inj_on claim_itemId (set (claims s))"
    by (simp add: claims_unique_def distinct_map)
  with c assms(3) show ?thesis
    by (auto dest: inj_onD)
qed

lemma no_claim_rows:
  assumes "\<forall>c\<in>set (claims s). \<not> (claim_itemId c = i \<and> claim_userId c = u)"
  shows "filter (\<lambda>c. claim_itemId c = i \<and> claim_userId c = u) (claims s) = []"
    and "s\<lparr>claims := filter (\<lambda>c. \<not> (claim_itemId c = i \<and> claim_userId c = u)) (claims s)\<rparr> = s"
proof -
  show "filter (\<lambda>c. claim_itemId c = i \<and> claim_userId c = u) (claims s) = []"
    using assms by (simp add: filter_empty_conv)
  have "filter (\<lambda>c. \<not> (claim_itemId c = i \<and> claim_userId c = u)) (claims s) = claims s"
    using assms by (simp add: filter_id_conv)
  then show "s\<lparr>claims := filter (\<lambda>c. \<not> (claim_itemId c = i \<and> claim_userId c = u)) (claims s)\<rparr> = s"
    by simp
qed

text \<open>
  C4. An unclaim request by \<open>u\<close> on the item id \<open>itemId\<close>, in a state with at most one
  claim row for every item: when no claim row exists for the item, and when the claim
  row of the item has another claimer, the answer is 404 \<open>Claim not found\<close> and the
  database is unchanged; when the claim row of the item has the claimer \<open>u\<close>, the row is
  deleted (nothing else changes), the item has no claim afterwards, and the answer is 204.
\<close>

theorem unclaim_outcomes:
  assumes "parseInt param = Some itemId" and "pg_integer itemId" and "claims_unique s"
  shows "(itemId \<notin> claim_itemId ` set (claims s) \<longrightarrow>
            DELETE_items_claim s u param = (Response 404 (Message ''Claim not found''), s))
       \<and> (\<forall>c. find (\<lambda>c. claim_itemId c = itemId) (claims s) = Some c \<and> claim_userId c \<noteq> u \<longrightarrow>
            DELETE_items_claim s u param = (Response 404 (Message ''Claim not found''), s))
       \<and> (\<forall>c. find (\<lambda>c. claim_itemId c = itemId) (claims s) = Some c \<and> claim_userId c = u \<longrightarrow>
            DELETE_items_claim s u param =
              (Response 204 NoContent, s\<lparr>claims := removeAll c (claims s)\<rparr>)
            \<and> itemId \<notin> claim_itemId ` set (removeAll c (claims s)))"
proof (intro conjI allI impI)
  assume "itemId \<notin> claim_itemId ` set (claims s)"
  then have "\<forall>c\<in>set (claims s). \<not> (claim_itemId c = itemId \<and> claim_userId c = u)"
    by auto
  from no_claim_rows [OF this] assms(1,2)
  show "DELETE_items_claim s u param = (Response 404 (Message ''Claim not found''), s)"
    by (simp add: DELETE_items_claim_def deleteClaim_def)
next
  fix c
  assume a: "find (\<lambda>c. claim_itemId c = itemId) (claims s) = Some c \<and> claim_userId c \<noteq> u"
  then have "\<forall>c'\<in>set (claims s). \<not> (claim_itemId c' = itemId \<and> claim_userId c' = u)"
    using the_claim_row [OF assms(3), of itemId c] by auto
  from no_claim_rows [OF this] assms(1,2)
  show "DELETE_items_claim s u param = (Response 404 (Message ''Claim not found''), s)"
    by (simp add: DELETE_items_claim_def deleteClaim_def)
next
  fix c
  assume a: "find (\<lambda>c. claim_itemId c = itemId) (claims s) = Some c \<and> claim_userId c = u"
  then have c: "c \<in> set (claims s)" "claim_itemId c = itemId"
    by (auto simp: find_Some_iff)
  have hit: "\<And>c'. c' \<in> set (claims s) \<Longrightarrow>
      (claim_itemId c' = itemId \<and> claim_userId c' = u) \<longleftrightarrow> c' = c"
    using the_claim_row [OF assms(3), of itemId c] a by auto
  have keep: "filter (\<lambda>c'. \<not> (claim_itemId c' = itemId \<and> claim_userId c' = u)) (claims s)
      = removeAll c (claims s)"
    unfolding removeAll_filter_not_eq by (rule filter_cong) (auto simp: hit)
  have "filter (\<lambda>c'. claim_itemId c' = itemId \<and> claim_userId c' = u) (claims s) \<noteq> []"
    using c a by (auto simp: filter_empty_conv)
  with keep assms(1,2)
  show "DELETE_items_claim s u param =
      (Response 204 NoContent, s\<lparr>claims := removeAll c (claims s)\<rparr>)"
    by (simp add: DELETE_items_claim_def deleteClaim_def)
  show "itemId \<notin> claim_itemId ` set (removeAll c (claims s))"
    using the_claim_row [OF assms(3), of itemId c] a by auto
qed

theorem unclaim_outcomes_witness:
  "parseInt (js ''1'') = Some 1 \<and> pg_integer 1 \<and> claims_unique shop_claimed
   \<and> find (\<lambda>c. claim_itemId c = 1) (claims shop_claimed) = Some bobs_claim
   \<and> DELETE_items_claim shop_claimed ''carol'' (js ''1'') =
       (Response 404 (Message ''Claim not found''), shop_claimed)
   \<and> DELETE_items_claim shop_claimed ''bob'' (js ''1'') =
       (Response 204 NoContent, shop_claimed\<lparr>claims := []\<rparr>)"
proof -
  have q: "claims_unique shop_claimed" by (simp add: claims_unique_def shop_defs)
  have f: "find (\<lambda>c. claim_itemId c = 1) (claims shop_claimed) = Some bobs_claim"
    by (simp add: shop_defs)
  have b: "claim_userId bobs_claim = ''bob''" "removeAll bobs_claim (claims shop_claimed) = []"
    by (simp_all add: shop_defs)
  show ?thesis
    using unclaim_outcomes [OF parse_1 pg_integer_1 q, of "''carol''"]
      unclaim_outcomes [OF parse_1 pg_integer_1 q, of "''bob''"] parse_1 pg_integer_1 q f b
    by simp
qed

subsection \<open>Reading a wishlist by id\<close>

text \<open>
  C5. For a non-empty identity \<open>u\<close> and a parameter that parses to the id \<open>wid\<close>: when no
  wishlist of \<open>s1\<close> has the id \<open>wid\<close>, and every wishlist of \<open>s2\<close> with the id \<open>wid\<close> belongs
  to a user other than \<open>u\<close>, then GET /api/wishlists/:id gives the same response in both
  states, and for an id of the column type this response is 404 \<open>Wishlist not found\<close>;
  neither run changes its database.
\<close>

theorem foreign_wishlist_as_absent:
  assumes "u \<noteq> []" and "parseInt param = Some wid"
    and "wid \<notin> wishlist_id ` set (wishlists s1)"
    and "\<forall>w\<in>set (wishlists s2). wishlist_id w = wid \<longrightarrow> wishlist_userId w \<noteq> u"
  shows "fst (GET_wishlists_id s1 u param) = fst (GET_wishlists_id s2 u param)
       \<and> (pg_integer wid \<longrightarrow>
            fst (GET_wishlists_id s1 u param) = Response 404 (Message ''Wishlist not found''))
       \<and> snd (GET_wishlists_id s1 u param) = s1 \<and> snd (GET_wishlists_id s2 u param) = s2"
proof -
  have "find (\<lambda>w. wishlist_id w = wid \<and> wishlist_userId w = u) (wishlists s1) = None"
    using assms(3) by (auto simp: find_None_iff)
  moreover have "find (\<lambda>w. wishlist_id w = wid \<and> wishlist_userId w = u) (wishlists s2) = None"
    using assms(4) by (auto simp: find_None_iff)
  ultimately show ?thesis
    using assms(1,2) by (simp add: GET_wishlists_id_def getWishlist_def truthy_def)
qed

theorem foreign_wishlist_as_absent_witness:
  "''bob'' \<noteq> [] \<and> parseInt (js ''1'') = Some 1
   \<and> 1 \<notin> wishlist_id ` set (wishlists empty_db)
   \<and> map wishlist_userId (filter (\<lambda>w. wishlist_id w = 1) (wishlists shop)) = [''alice'']
   \<and> fst (GET_wishlists_id empty_db ''bob'' (js ''1'')) =
       Response 404 (Message ''Wishlist not found'')
   \<and> fst (GET_wishlists_id shop ''bob'' (js ''1'')) =
       Response 404 (Message ''Wishlist not found'')"
proof -
  have n: "''bob'' \<noteq> []" by simp
  have a: "1 \<notin> wishlist_id ` set (wishlists empty_db)" by (simp add: empty_db_def)
  have e: "map wishlist_userId (filter (\<lambda>w. wishlist_id w = 1) (wishlists shop)) = [''alice'']"
    by (simp add: shop_defs)
  have o: "\<forall>w\<in>set (wishlists shop). wishlist_id w = 1 \<longrightarrow> wishlist_userId w \<noteq> ''bob''"
    by (simp add: shop_defs)
  from foreign_wishlist_as_absent [OF n parse_1 a o] pg_integer_1
  have r: "fst (GET_wishlists_id empty_db ''bob'' (js ''1'')) =
        Response 404 (Message ''Wishlist not found'')"
      "fst (GET_wishlists_id shop ''bob'' (js ''1'')) =
        fst (GET_wishlists_id empty_db ''bob'' (js ''1''))"
    by auto
  show ?thesis
    using r n parse_1 a e by simp
qed

subsection \<open>At most one claim per item\<close>

text \<open>What each query of the storage does to the table of claims.\<close>

lemma distinct_map_filter_claims:
  "distinct (map claim_itemId xs) \<Longrightarrow> distinct (map claim_itemId (filter P xs))"
  by (simp add: distinct_map_filter)

lemma claims_insert_wishlist: "insert_wishlist s now v = (r, s') \<Longrightarrow> claims s' = claims s"
  by (auto simp: insert_wishlist_def Let_def split: option.splits if_splits)

lemma claims_createWishlist: "createWishlist s now tok d = (r, s') \<Longrightarrow> claims s' = claims s"
  by (simp add: createWishlist_def claims_insert_wishlist)

lemma claims_updateWishlist: "updateWishlist s now i u d = (r, s') \<Longrightarrow> claims s' = claims s"
  by (auto simp: updateWishlist_def Let_def split: list.splits if_splits)

lemma claims_createItem: "createItem s now d = (r, s') \<Longrightarrow> claims s' = claims s"
  by (auto simp: createItem_def Let_def split: option.splits if_splits)

lemma claims_updateItem: "updateItem s now i u d = (r, s') \<Longrightarrow> claims s' = claims s"
  by (auto simp: updateItem_def Let_def split: list.splits if_splits)

lemma claims_delete_items_where:
  "\<exists>P. claims (delete_items_where Q s) = filter P (claims s)"
  by (auto simp: delete_items_where_def Let_def)

lemma claims_delete_wishlists_where:
  "\<exists>P. claims (delete_wishlists_where Q s) = filter P (claims s)"
  by (auto simp: delete_wishlists_where_def delete_items_where_def Let_def)

lemma claims_deleteWishlist:
  "deleteWishlist s i u = (r, s') \<Longrightarrow> \<exists>P. claims s' = filter P (claims s)"
  using claims_delete_wishlists_where [of _ s]
  by (auto simp: deleteWishlist_def Let_def split: if_splits intro: exI [of _ "\<lambda>_. True"])

lemma claims_deleteItem:
  "deleteItem s i u = (r, s') \<Longrightarrow> \<exists>P. claims s' = filter P (claims s)"
  using claims_delete_items_where [of _ s]
  by (auto simp: deleteItem_def Let_def split: if_splits intro: exI [of _ "\<lambda>_. True"])

lemma claims_deleteClaim:
  "deleteClaim s i u = (r, s') \<Longrightarrow> \<exists>P. claims s' = filter P (claims s)"
  by (auto simp: deleteClaim_def Let_def split: if_splits intro: exI [of _ "\<lambda>_. True"])

lemma unique_createClaim:
  "createClaim s now d = (r, s') \<Longrightarrow> claims_unique s \<Longrightarrow> claims_unique s'"
  by (auto simp: createClaim_def claims_unique_def Let_def split: if_splits option.splits)

lemma unique_same: "claims s' = claims s \<Longrightarrow> claims_unique s \<Longrightarrow> claims_unique s'"
  by (simp add: claims_unique_def)

lemma unique_filter:
  "\<exists>P. claims s' = filter P (claims s) \<Longrightarrow> claims_unique s \<Longrightarrow> claims_unique s'"
  by (auto simp: claims_unique_def distinct_map_filter)

text \<open>The handlers, one by one.\<close>

lemma unique_claim_insert:
  "claims_unique s \<Longrightarrow> claims_unique (snd (claim_insert s now u i))"
  by (auto simp: claim_insert_def split: prod.splits sum.splits dest: unique_createClaim)

lemma unique_GET_wishlists_id:
  "claims_unique s \<Longrightarrow> claims_unique (snd (GET_wishlists_id s u p))"
  by (auto simp: GET_wishlists_id_def split: option.splits sum.splits)

lemma unique_POST_wishlists:
  "claims_unique s \<Longrightarrow> claims_unique (snd (POST_wishlists s now u body tok))"
  by (auto simp: POST_wishlists_def split: prod.splits sum.splits
      dest!: claims_createWishlist intro: unique_same)

lemma unique_PATCH_wishlists_id:
  "claims_unique s \<Longrightarrow> claims_unique (snd (PATCH_wishlists_id s now u p body))"
  by (auto simp: PATCH_wishlists_id_def split: prod.splits sum.splits option.splits
      dest!: claims_updateWishlist intro: unique_same)

lemma unique_DELETE_wishlists_id:
  "claims_unique s \<Longrightarrow> claims_unique (snd (DELETE_wishlists_id s u p))"
  by (auto simp: DELETE_wishlists_id_def split: prod.splits sum.splits option.splits
      dest!: claims_deleteWishlist intro: unique_filter)

lemma unique_POST_wishlists_items:
  "claims_unique s \<Longrightarrow> claims_unique (snd (POST_wishlists_items isURL s now u p body))"
  by (auto simp: POST_wishlists_items_def split: prod.splits sum.splits option.splits
      dest!: claims_createItem intro: unique_same)

lemma unique_PATCH_items_id:
  "claims_unique s \<Longrightarrow> claims_unique (snd (PATCH_items_id isURL s now u p body))"
  by (auto simp: PATCH_items_id_def split: prod.splits sum.splits option.splits
      dest!: claims_updateItem intro: unique_same)

lemma unique_DELETE_items_id:
  "claims_unique s \<Longrightarrow> claims_unique (snd (DELETE_items_id s u p))"
  by (auto simp: DELETE_items_id_def split: prod.splits sum.splits option.splits
      dest!: claims_deleteItem intro: unique_filter)

lemma unique_POST_items_claim:
  "claims_unique s \<Longrightarrow> claims_unique (snd (POST_items_claim s now u p))"
  by (auto simp: POST_items_claim_def unique_claim_insert split: option.splits)

lemma unique_DELETE_items_claim:
  "claims_unique s \<Longrightarrow> claims_unique (snd (DELETE_items_claim s u p))"
  by (auto simp: DELETE_items_claim_def split: prod.splits sum.splits option.splits
      dest!: claims_deleteClaim intro: unique_filter)

lemma unique_handle:
  "claims_unique s \<Longrightarrow> claims_unique (snd (handle isURL s now r))"
  by (cases r)
    (simp_all add: unique_GET_wishlists_id unique_POST_wishlists unique_PATCH_wishlists_id
      unique_DELETE_wishlists_id unique_POST_wishlists_items unique_PATCH_items_id
      unique_DELETE_items_id unique_POST_items_claim unique_DELETE_items_claim)

lemma unique_serve: "claims_unique s \<Longrightarrow> claims_unique (serve isURL s rs)"
  by (induction rs arbitrary: s) (auto simp: unique_handle)

text \<open>
  C6. A database with at most one claim row for every item keeps this property under
  every request (reading, creating, updating and deleting a wishlist or an item,
  claiming and unclaiming), under any sequence of requests, and under the insert of
  the claim handler run on any state, whatever the checks saw before. The empty
  database has the property, so every database that requests lead to has it.
\<close>

theorem one_claim_per_item:
  assumes "claims_unique s"
  shows "claims_unique (snd (handle isURL s now r))
       \<and> claims_unique (serve isURL s rs)
       \<and> claims_unique (snd (claim_insert s now u itemId))
       \<and> claims_unique empty_db
       \<and> claims_unique (serve isURL empty_db rs)"
proof -
  have "claims_unique empty_db"
    by (simp add: claims_unique_def empty_db_def)
  with assms show ?thesis
    by (simp add: unique_handle unique_serve unique_claim_insert)
qed

theorem one_claim_per_item_witness:
  "claims_unique shop_claimed
   \<and> claims_unique (snd (handle (\<lambda>v. True) shop_claimed 7 (ClaimItem ''carol'' (js ''1''))))
   \<and> claims (snd (claim_insert shop_claimed 7 ''carol'' 1)) = [bobs_claim]"
proof -
  have q: "claims_unique shop_claimed" by (simp add: claims_unique_def shop_defs)
  have c: "claims (snd (claim_insert shop_claimed 7 ''carol'' 1)) = [bobs_claim]"
    by (simp add: claim_insert_def createClaim_def pg_integer_def Let_def shop_defs)
  show ?thesis
    using one_claim_per_item [OF q, of "\<lambda>v. True" 7 "ClaimItem ''carol'' (js ''1'')"] q c
    by simp
qed

subsection \<open>Deleting cascades\<close>

lemma tables_delete_items_where:
  "wishlists (delete_items_where P s) = wishlists s"
  "items (delete_items_where P s) = filter (\<lambda>it. \<not> P it) (items s)"
  "claims (delete_items_where P s) =
     filter (\<lambda>c. claim_itemId c \<notin> item_id ` {it \<in> set (items s). P it}) (claims s)"
  by (simp_all add: delete_items_where_def Let_def)

lemma tables_delete_wishlists_where:
  "wishlists (delete_wishlists_where P s) = filter (\<lambda>w. \<not> P w) (wishlists s)"
  "items (delete_wishlists_where P s) =
     filter (\<lambda>it. item_wishlistId it \<notin> wishlist_id ` {w \<in> set (wishlists s). P w}) (items s)"
  "claims (delete_wishlists_where P s) =
     filter (\<lambda>c. claim_itemId c \<notin> item_id ` {it \<in> set (items s).
        item_wishlistId it \<in> wishlist_id ` {w \<in> set (wishlists s). P w}}) (claims s)"
  by (simp_all add: delete_wishlists_where_def tables_delete_items_where Let_def)

lemma no_orphans_iff:
  "no_orphans s \<longleftrightarrow>
     (\<forall>it\<in>set (items s). \<exists>w\<in>set (wishlists s). item_wishlistId it = wishlist_id w)
     \<and> (\<forall>c\<in>set (claims s). \<exists>it\<in>set (items s). claim_itemId c = item_id it)"
  by (simp add: no_orphans_def list_all_iff image_iff)

lemma no_orphans_delete_items_where:
  assumes "no_orphans s"
  shows "no_orphans (delete_items_where P s)"
  using assms unfolding no_orphans_iff tables_delete_items_where
  by (auto simp: image_iff) metis

lemma no_orphans_delete_wishlists_where:
  assumes "no_orphans s"
  shows "no_orphans (delete_wishlists_where P s)"
  using assms unfolding no_orphans_iff tables_delete_wishlists_where
  by (auto simp: image_iff) metis+

lemma DELETE_wishlists_id_204:
  assumes "parseInt p = Some wid"
    and "DELETE_wishlists_id s u p = (Response 204 NoContent, s')"
  shows "s' = delete_wishlists_where (\<lambda>w. wishlist_id w = wid \<and> wishlist_userId w = u) s"
    and "wishlist_id ` {w \<in> set (wishlists s). wishlist_id w = wid \<and> wishlist_userId w = u}
           = {wid}"
proof -
  from assms have d: "deleteWishlist s wid u = (Inr True, s')"
    by (auto simp: DELETE_wishlists_id_def split: prod.splits sum.splits if_splits)
  then show "s' = delete_wishlists_where (\<lambda>w. wishlist_id w = wid \<and> wishlist_userId w = u) s"
    by (auto simp: deleteWishlist_def Let_def split: if_splits)
  from d have "filter (\<lambda>w. wishlist_id w = wid \<and> wishlist_userId w = u) (wishlists s) \<noteq> []"
    by (auto simp: deleteWishlist_def Let_def split: if_splits)
  then show "wishlist_id ` {w \<in> set (wishlists s). wishlist_id w = wid \<and> wishlist_userId w = u}
      = {wid}"
    by (auto simp: filter_empty_conv)
qed

lemma DELETE_items_id_204:
  assumes "parseInt q = Some iid"
    and "DELETE_items_id s u q = (Response 204 NoContent, s')"
  shows "s' = delete_items_where (owned_item s iid u) s"
    and "item_id ` {it \<in> set (items s). owned_item s iid u it} = {iid}"
proof -
  from assms have d: "deleteItem s iid u = (Inr True, s')"
    by (auto simp: DELETE_items_id_def split: prod.splits sum.splits if_splits)
  then show "s' = delete_items_where (owned_item s iid u) s"
    by (auto simp: deleteItem_def Let_def split: if_splits)
  from d have "filter (owned_item s iid u) (items s) \<noteq> []"
    by (auto simp: deleteItem_def Let_def split: if_splits)
  then show "item_id ` {it \<in> set (items s). owned_item s iid u it} = {iid}"
    by (auto simp: filter_empty_conv owned_item_def)
qed

lemma no_orphans_insert_wishlist:
  "insert_wishlist s now v = (r, s') \<Longrightarrow> no_orphans s \<Longrightarrow> no_orphans s'"
  by (auto simp: insert_wishlist_def no_orphans_iff Let_def split: option.splits if_splits)

lemma no_orphans_updateWishlist:
  assumes "updateWishlist s now wid u d = (r, s')" and "no_orphans s"
  shows "no_orphans s'"
proof -
  let ?v = "d\<lparr>iw_updatedAt := Some now\<rparr>"
  let ?rows = "map (\<lambda>w. if wishlist_id w = wid \<and> wishlist_userId w = u
      then set_wishlist ?v w else w) (wishlists s)"
  have "map wishlist_id ?rows = map wishlist_id (wishlists s)"
    by (simp add: set_wishlist_def)
  then have ids: "wishlist_id ` set ?rows = wishlist_id ` set (wishlists s)"
    by (metis set_map)
  from assms(1) have "s' = s \<or> s' = s\<lparr>wishlists := ?rows\<rparr>"
    by (auto simp: updateWishlist_def Let_def split: list.splits if_splits)
  then show ?thesis
    using assms(2) ids by (auto simp: no_orphans_def list_all_iff)
qed

lemma no_orphans_createItem:
  "createItem s now d = (r, s') \<Longrightarrow> no_orphans s \<Longrightarrow> no_orphans s'"
  by (auto simp: createItem_def no_orphans_def list_all_iff item_row_error_def Let_def
      split: option.splits if_splits)

lemma no_error_rows:
  assumes "filter (\<lambda>e. e \<noteq> None) (map f xs) = []" and "x \<in> set xs"
  shows "f x = None"
  using assms by (auto simp: filter_empty_conv)

lemma no_orphans_items_update:
  assumes "no_orphans s" and "map item_id rows = map item_id (items s)"
    and "\<forall>it\<in>set rows. item_wishlistId it \<in> wishlist_id ` set (wishlists s)"
  shows "no_orphans (s\<lparr>items := rows\<rparr>)"
proof -
  from assms(2) have "item_id ` set rows = item_id ` set (items s)"
    by (metis set_map)
  with assms(1,3) show ?thesis
    by (simp add: no_orphans_def list_all_iff)
qed

lemma no_orphans_updateItem:
  assumes "updateItem s now iid u d = (r, s')" and "no_orphans s"
  shows "no_orphans s'"
proof -
  let ?v = "d\<lparr>ii_updatedAt := Some now\<rparr>"
  let ?hit = "owned_item s iid u"
  let ?rows = "map (\<lambda>it. if ?hit it then set_item ?v it else it) (items s)"
  show ?thesis
  proof (cases "s' = s")
    case True
    with assms(2) show ?thesis by simp
  next
    case False
    with assms(1) have s': "s' = s\<lparr>items := ?rows\<rparr>"
      and ok: "filter (\<lambda>e. e \<noteq> None)
        (map (item_row_error s) (map (set_item ?v) (filter ?hit (items s)))) = []"
      by (auto simp: updateItem_def Let_def split: list.splits if_splits)
    have fk: "item_wishlistId (set_item ?v it) \<in> wishlist_id ` set (wishlists s)"
      if "it \<in> set (items s)" "?hit it" for it
    proof -
      from that have "set_item ?v it \<in> set (map (set_item ?v) (filter ?hit (items s)))"
        by simp
      from no_error_rows [OF ok this] show ?thesis
        by (simp add: item_row_error_def split: if_splits)
    qed
    have ids: "map item_id ?rows = map item_id (items s)"
      by (simp add: set_item_def)
    have "\<forall>it\<in>set ?rows. item_wishlistId it \<in> wishlist_id ` set (wishlists s)"
      using fk assms(2) by (auto simp: no_orphans_def list_all_iff)
    with assms(2) ids show ?thesis
      unfolding s' by (rule no_orphans_items_update)
  qed
qed

lemma no_orphans_createClaim:
  "createClaim s now d = (r, s') \<Longrightarrow> no_orphans s \<Longrightarrow> no_orphans s'"
  by (auto simp: createClaim_def no_orphans_def list_all_iff claim_row_error_def Let_def
      split: option.splits if_splits)

lemma no_orphans_deleteClaim:
  "deleteClaim s i u = (r, s') \<Longrightarrow> no_orphans s \<Longrightarrow> no_orphans s'"
  by (auto simp: deleteClaim_def no_orphans_def list_all_iff Let_def split: if_splits)

lemma no_orphans_deleteWishlist:
  "deleteWishlist s i u = (r, s') \<Longrightarrow> no_orphans s \<Longrightarrow> no_orphans s'"
  by (auto simp: deleteWishlist_def Let_def no_orphans_delete_wishlists_where split: if_splits)

lemma no_orphans_deleteItem:
  "deleteItem s i u = (r, s') \<Longrightarrow> no_orphans s \<Longrightarrow> no_orphans s'"
  by (auto simp: deleteItem_def Let_def no_orphans_delete_items_where split: if_splits)

lemma no_orphans_handle:
  assumes "no_orphans s"
  shows "no_orphans (snd (handle isURL s now r))"
proof (cases r)
  case (GetWishlist u p)
  with assms show ?thesis
    by (auto simp: GET_wishlists_id_def split: option.splits sum.splits)
next
  case (CreateWishlist u body tok)
  with assms show ?thesis
    by (auto simp: POST_wishlists_def createWishlist_def split: prod.splits sum.splits
        dest: no_orphans_insert_wishlist)
next
  case (UpdateWishlist u p body)
  with assms show ?thesis
    by (auto simp: PATCH_wishlists_id_def split: prod.splits sum.splits option.splits
        dest: no_orphans_updateWishlist)
next
  case (DeleteWishlist u p)
  with assms show ?thesis
    by (auto simp: DELETE_wishlists_id_def split: prod.splits sum.splits option.splits
        dest: no_orphans_deleteWishlist)
next
  case (CreateItem u p body)
  with assms show ?thesis
    by (auto simp: POST_wishlists_items_def split: prod.splits sum.splits option.splits
        dest: no_orphans_createItem)
next
  case (UpdateItem u p body)
  with assms show ?thesis
    by (auto simp: PATCH_items_id_def split: prod.splits sum.splits option.splits
        dest: no_orphans_updateItem)
next
  case (DeleteItem u p)
  with assms show ?thesis
    by (auto simp: DELETE_items_id_def split: prod.splits sum.splits option.splits
        dest: no_orphans_deleteItem)
next
  case (ClaimItem u p)
  with assms show ?thesis
    by (auto simp: POST_items_claim_def claim_insert_def
        split: prod.splits sum.splits option.splits dest: no_orphans_createClaim)
next
  case (UnclaimItem u p)
  with assms show ?thesis
    by (auto simp: DELETE_items_claim_def split: prod.splits sum.splits option.splits
        dest: no_orphans_deleteClaim)
qed

lemma no_orphans_serve: "no_orphans s \<Longrightarrow> no_orphans (serve isURL s rs)"
  by (induction rs arbitrary: s) (auto simp: no_orphans_handle)

lemma no_orphans_empty_db: "no_orphans empty_db"
  by (simp add: no_orphans_def empty_db_def)

lemma DELETE_wishlists_id_cascade:
  assumes "no_orphans s" and "parseInt p = Some wid"
    and "DELETE_wishlists_id s u p = (Response 204 NoContent, s')"
  shows "(\<forall>w\<in>set (wishlists s'). \<not> (wishlist_id w = wid \<and> wishlist_userId w = u))
     \<and> (\<forall>it\<in>set (items s'). item_wishlistId it \<noteq> wid)
     \<and> (\<forall>c\<in>set (claims s'). \<forall>it\<in>set (items s).
           item_wishlistId it = wid \<longrightarrow> claim_itemId c \<noteq> item_id it)
     \<and> no_orphans s'"
proof -
  note d = DELETE_wishlists_id_204 [OF assms(2,3)]
  have "no_orphans s'"
    unfolding d(1) using assms(1) by (rule no_orphans_delete_wishlists_where)
  moreover have "\<forall>w\<in>set (wishlists s'). \<not> (wishlist_id w = wid \<and> wishlist_userId w = u)"
    unfolding d(1) tables_delete_wishlists_where by simp
  moreover have "\<forall>it\<in>set (items s'). item_wishlistId it \<noteq> wid"
    unfolding d(1) tables_delete_wishlists_where d(2) by simp
  moreover have "\<forall>c\<in>set (claims s'). \<forall>it\<in>set (items s).
      item_wishlistId it = wid \<longrightarrow> claim_itemId c \<noteq> item_id it"
    unfolding d(1) tables_delete_wishlists_where d(2) by auto
  ultimately show ?thesis
    by blast
qed

lemma DELETE_items_id_cascade:
  assumes "no_orphans s" and "parseInt q = Some iid"
    and "DELETE_items_id s u q = (Response 204 NoContent, s')"
  shows "(\<forall>it\<in>set (items s'). \<not> owned_item s iid u it)
     \<and> (\<forall>c\<in>set (claims s'). claim_itemId c \<noteq> iid)
     \<and> no_orphans s'"
proof -
  note d = DELETE_items_id_204 [OF assms(2,3)]
  have "no_orphans s'"
    unfolding d(1) using assms(1) by (rule no_orphans_delete_items_where)
  moreover have "\<forall>it\<in>set (items s'). \<not> owned_item s iid u it"
    unfolding d(1) tables_delete_items_where by simp
  moreover have "\<forall>c\<in>set (claims s'). claim_itemId c \<noteq> iid"
    unfolding d(1) tables_delete_items_where d(2) by simp
  ultimately show ?thesis
    by blast
qed

text \<open>
  C7. In a database without orphans, a successful DELETE of the wishlist \<open>wid\<close> by its
  owner \<open>u\<close> (answer 204) leaves no such wishlist, no item of the wishlist \<open>wid\<close> and no
  claim on what was an item of it, and again no orphans; a successful DELETE of the item
  \<open>iid\<close> (answer 204) leaves no such item of the user's wishlists and no claim on the item
  \<open>iid\<close>, and again no orphans. Every request keeps a database without orphans so, and
  the empty database has none: no database that requests lead to has an orphan.
\<close>

theorem delete_cascades:
  assumes "no_orphans s"
  shows "(parseInt p = Some wid \<and> DELETE_wishlists_id s u p = (Response 204 NoContent, s') \<longrightarrow>
            (\<forall>w\<in>set (wishlists s'). \<not> (wishlist_id w = wid \<and> wishlist_userId w = u))
          \<and> (\<forall>it\<in>set (items s'). item_wishlistId it \<noteq> wid)
          \<and> (\<forall>c\<in>set (claims s'). \<forall>it\<in>set (items s).
                item_wishlistId it = wid \<longrightarrow> claim_itemId c \<noteq> item_id it)
          \<and> no_orphans s')
       \<and> (parseInt q = Some iid \<and> DELETE_items_id s u q = (Response 204 NoContent, s'') \<longrightarrow>
            (\<forall>it\<in>set (items s''). \<not> owned_item s iid u it)
          \<and> (\<forall>c\<in>set (claims s''). claim_itemId c \<noteq> iid)
          \<and> no_orphans s'')
       \<and> no_orphans (snd (handle isURL s now r))
       \<and> no_orphans (serve isURL empty_db rs)"
proof (intro conjI)
  show "parseInt p = Some wid \<and> DELETE_wishlists_id s u p = (Response 204 NoContent, s') \<longrightarrow>
      (\<forall>w\<in>set (wishlists s'). \<not> (wishlist_id w = wid \<and> wishlist_userId w = u))
      \<and> (\<forall>it\<in>set (items s'). item_wishlistId it \<noteq> wid)
      \<and> (\<forall>c\<in>set (claims s'). \<forall>it\<in>set (items s).
            item_wishlistId it = wid \<longrightarrow> claim_itemId c \<noteq> item_id it)
      \<and> no_orphans s'"
    using DELETE_wishlists_id_cascade [OF assms, of p wid u s'] by blast
  show "parseInt q = Some iid \<and> DELETE_items_id s u q = (Response 204 NoContent, s'') \<longrightarrow>
      (\<forall>it\<in>set (items s''). \<not> owned_item s iid u it)
      \<and> (\<forall>c\<in>set (claims s''). claim_itemId c \<noteq> iid)
      \<and> no_orphans s''"
    using DELETE_items_id_cascade [OF assms, of q iid u s''] by blast
  show "no_orphans (snd (handle isURL s now r))"
    using assms by (rule no_orphans_handle)
  show "no_orphans (serve isURL empty_db rs)"
    using no_orphans_empty_db by (rule no_orphans_serve)
qed

theorem delete_cascades_witness:
  "no_orphans shop_claimed \<and> parseInt (js ''1'') = Some 1
   \<and> DELETE_wishlists_id shop_claimed ''alice'' (js ''1'') =
       (Response 204 NoContent, shop_claimed\<lparr>wishlists := [], items := [], claims := []\<rparr>)
   \<and> DELETE_items_id shop_claimed ''alice'' (js ''1'') =
       (Response 204 NoContent, shop_claimed\<lparr>items := [], claims := []\<rparr>)
   \<and> no_orphans (shop_claimed\<lparr>wishlists := [], items := [], claims := []\<rparr>)
   \<and> no_orphans (shop_claimed\<lparr>items := [], claims := []\<rparr>)"
proof -
  have n: "no_orphans shop_claimed" by (simp add: no_orphans_def shop_defs)
  have w: "DELETE_wishlists_id shop_claimed ''alice'' (js ''1'') =
      (Response 204 NoContent, shop_claimed\<lparr>wishlists := [], items := [], claims := []\<rparr>)"
    by (simp add: parse_1 DELETE_wishlists_id_def deleteWishlist_def delete_wishlists_where_def
        delete_items_where_def pg_integer_def Let_def shop_defs)
  have i: "DELETE_items_id shop_claimed ''alice'' (js ''1'') =
      (Response 204 NoContent, shop_claimed\<lparr>items := [], claims := []\<rparr>)"
    by (simp add: parse_1 DELETE_items_id_def deleteItem_def owned_item_def
        delete_items_where_def pg_integer_def Let_def shop_defs)
  show ?thesis
    using delete_cascades [OF n, of "js ''1''" 1 "''alice''"
        "shop_claimed\<lparr>wishlists := [], items := [], claims := []\<rparr>" "js ''1''" 1
        "shop_claimed\<lparr>items := [], claims := []\<rparr>"] n parse_1 w i
    by simp
qed

subsection \<open>Creating a wishlist whose share token is taken\<close>

text \<open>
  C8, as the code has it. When the share token drawn for a new wishlist is the token of
  an existing wishlist, the insert is rejected by the store, the handler's \<^verbatim>\<open>catch\<close>
  block answers 500 \<open>Failed to create wishlist\<close>, and no wishlist is created: the tables
  are as before (the sequence has moved on). The token is drawn once and the insert is
  attempted once.
\<close>

theorem token_collision_is_500:
  assumes "insertWishlistSchema False body = Inr data"
    and "tok \<in> wishlist_shareToken ` set (wishlists s)"
  shows "isl (fst (createWishlist s now tok (data\<lparr>iw_userId := Some u\<rparr>)))
       \<and> POST_wishlists s now u body tok =
           (Response 500 (Message ''Failed to create wishlist''),
            s\<lparr>wishlists_id_seq := wishlists_id_seq s + 1\<rparr>)"
  using assms
  by (auto simp: POST_wishlists_def createWishlist_def insert_wishlist_def Let_def
      split: option.splits prod.splits sum.splits)

theorem token_collision_is_500_witness:
  "insertWishlistSchema False (JObject [(''name'', JString ''Wedding'')]) =
     Inr \<lparr>iw_userId = None, iw_name = Some ''Wedding'', iw_description = None,
          iw_shareToken = None, iw_createdAt = None, iw_updatedAt = None\<rparr>
   \<and> ''c0ffee'' \<in> wishlist_shareToken ` set (wishlists shop)
   \<and> POST_wishlists shop 7 ''bob'' (JObject [(''name'', JString ''Wedding'')]) ''c0ffee'' =
       (Response 500 (Message ''Failed to create wishlist''),
        shop\<lparr>wishlists_id_seq := wishlists_id_seq shop + 1\<rparr>)"
proof -
  have v: "insertWishlistSchema False (JObject [(''name'', JString ''Wedding'')]) =
      Inr \<lparr>iw_userId = None, iw_name = Some ''Wedding'', iw_description = None,
           iw_shareToken = None, iw_createdAt = None, iw_updatedAt = None\<rparr>"
    by (simp add: insertWishlistSchema_def zString_def nameRule_def)
  have t: "''c0ffee'' \<in> wishlist_shareToken ` set (wishlists shop)"
    by (simp add: shop_defs)
  show ?thesis
    using token_collision_is_500 [OF v t, of 7 "''bob''"] v t by simp
qed

text \<open>
  C8 as stated fails: bob's request draws the token of alice's wishlist; the answer is
  the 500 of the \<^verbatim>\<open>catch\<close> block, and the table of wishlists is as before, although
  the same request with a fresh token is answered 201.
\<close>

theorem token_collision_counterexample:
  "fst (POST_wishlists shop 7 ''bob'' (JObject [(''name'', JString ''Wedding'')]) ''c0ffee'') =
     Response 500 (Message ''Failed to create wishlist'')
   \<and> wishlists (snd (POST_wishlists shop 7 ''bob''
        (JObject [(''name'', JString ''Wedding'')]) ''c0ffee'')) = wishlists shop
   \<and> fst (POST_wishlists shop 7 ''bob'' (JObject [(''name'', JString ''Wedding'')]) ''decaf'') =
       Response 201 (WishlistJson \<lparr>wishlist_id = 2, wishlist_userId = ''bob'',
         wishlist_name = ''Wedding'', wishlist_description = None,
         wishlist_shareToken = ''decaf'', wishlist_createdAt = 7, wishlist_updatedAt = 7\<rparr>)"
  by (simp add: POST_wishlists_def insertWishlistSchema_def zString_def nameRule_def
      createWishlist_def insert_wishlist_def wishlist_row_error_def orKeep_def Let_def shop_defs)

subsection \<open>What an update leaves alone\<close>

lemma insertWishlistSchema_keys:
  assumes "insertWishlistSchema partial body = Inr d"
  shows "iw_userId d = None" and "iw_shareToken d = None" and "iw_createdAt d = None"
  using assms
  by (auto simp: insertWishlistSchema_def Let_def split: json.splits prod.splits if_splits)

lemma insertItemSchema_keys:
  assumes "insertItemSchema isURL partial body = Inr d"
  shows "ii_wishlistId d = None" and "ii_createdAt d = None"
  using assms
  by (auto simp: insertItemSchema_def Let_def split: json.splits prod.splits if_splits)

lemma frame_set_wishlist:
  assumes "iw_userId v = None" and "iw_shareToken v = None" and "iw_createdAt v = None"
  shows "wishlist_frame (set_wishlist v w) = wishlist_frame w"
  using assms by (simp add: wishlist_frame_def set_wishlist_def orKeep_def)

lemma frame_set_item:
  assumes "ii_wishlistId v = None" and "ii_createdAt v = None"
  shows "item_frame (set_item v it) = item_frame it"
  using assms by (simp add: item_frame_def set_item_def orKeep_def)

lemma updateWishlist_tables:
  assumes "updateWishlist s now wid u d = (r, s')"
    and "iw_userId d = None" and "iw_shareToken d = None" and "iw_createdAt d = None"
  shows "map wishlist_frame (wishlists s') = map wishlist_frame (wishlists s)"
    and "users s' = users s" and "items s' = items s" and "claims s' = claims s"
    and "\<And>w'. r = Inr (Some w') \<Longrightarrow>
           \<exists>w\<in>set (wishlists s). wishlist_id w = wid \<and> wishlist_userId w = u
             \<and> wishlist_frame w' = wishlist_frame w"
proof -
  let ?v = "d\<lparr>iw_updatedAt := Some now\<rparr>"
  have f: "\<And>w. wishlist_frame (set_wishlist ?v w) = wishlist_frame w"
    using assms(2-4) by (simp add: frame_set_wishlist)
  have m: "map wishlist_frame
      (map (\<lambda>w. if wishlist_id w = wid \<and> wishlist_userId w = u then set_wishlist ?v w else w)
        (wishlists s)) = map wishlist_frame (wishlists s)"
    by (simp add: f)
  from assms(1) have "s' = s \<or> s' = s\<lparr>wishlists :=
      map (\<lambda>w. if wishlist_id w = wid \<and> wishlist_userId w = u then set_wishlist ?v w else w)
        (wishlists s)\<rparr>"
    by (auto simp: updateWishlist_def Let_def split: list.splits if_splits)
  then show "map wishlist_frame (wishlists s') = map wishlist_frame (wishlists s)"
    and "users s' = users s" and "items s' = items s" and "claims s' = claims s"
    using m by auto
  fix w'
  assume "r = Inr (Some w')"
  with assms(1) obtain ws where
    "map (set_wishlist ?v)
       (filter (\<lambda>w. wishlist_id w = wid \<and> wishlist_userId w = u) (wishlists s)) = w' # ws"
    by (auto simp: updateWishlist_def Let_def split: list.splits if_splits)
  then obtain w zs where
    z: "filter (\<lambda>w. wishlist_id w = wid \<and> wishlist_userId w = u) (wishlists s) = w # zs"
    and "w' = set_wishlist ?v w"
    by (auto simp: map_eq_Cons_conv)
  moreover from Cons_eq_filterD [OF z [symmetric]]
  have "w \<in> set (wishlists s) \<and> wishlist_id w = wid \<and> wishlist_userId w = u"
    by auto
  ultimately show "\<exists>w\<in>set (wishlists s). wishlist_id w = wid \<and> wishlist_userId w = u
      \<and> wishlist_frame w' = wishlist_frame w"
    using f by auto
qed

lemma updateItem_tables:
  assumes "updateItem s now iid u d = (r, s')"
    and "ii_wishlistId d = None" and "ii_createdAt d = None"
  shows "map item_frame (items s') = map item_frame (items s)"
    and "users s' = users s" and "wishlists s' = wishlists s" and "claims s' = claims s"
    and "\<And>it'. r = Inr (Some it') \<Longrightarrow>
           \<exists>it\<in>set (items s). owned_item s iid u it \<and> item_frame it' = item_frame it"
proof -
  let ?v = "d\<lparr>ii_updatedAt := Some now\<rparr>"
  have f: "\<And>it. item_frame (set_item ?v it) = item_frame it"
    using assms(2,3) by (simp add: frame_set_item)
  have m: "map item_frame
      (map (\<lambda>it. if owned_item s iid u it then set_item ?v it else it) (items s))
      = map item_frame (items s)"
    by (simp add: f)
  from assms(1) have "s' = s \<or> s' = s\<lparr>items :=
      map (\<lambda>it. if owned_item s iid u it then set_item ?v it else it) (items s)\<rparr>"
    by (auto simp: updateItem_def Let_def split: list.splits if_splits)
  then show "map item_frame (items s') = map item_frame (items s)"
    and "users s' = users s" and "wishlists s' = wishlists s" and "claims s' = claims s"
    using m by auto
  fix it'
  assume "r = Inr (Some it')"
  with assms(1) obtain its where
    "map (set_item ?v) (filter (owned_item s iid u) (items s)) = it' # its"
    by (auto simp: updateItem_def Let_def split: list.splits if_splits)
  then obtain it zs where z: "filter (owned_item s iid u) (items s) = it # zs"
    and "it' = set_item ?v it"
    by (auto simp: map_eq_Cons_conv)
  moreover from Cons_eq_filterD [OF z [symmetric]]
  have "it \<in> set (items s) \<and> owned_item s iid u it"
    by auto
  ultimately show "\<exists>it\<in>set (items s). owned_item s iid u it \<and> item_frame it' = item_frame it"
    using f by auto
qed

lemma PATCH_wishlists_id_frame:
  "map wishlist_frame (wishlists (snd (PATCH_wishlists_id s now u p body)))
     = map wishlist_frame (wishlists s)
   \<and> users (snd (PATCH_wishlists_id s now u p body)) = users s
   \<and> items (snd (PATCH_wishlists_id s now u p body)) = items s
   \<and> claims (snd (PATCH_wishlists_id s now u p body)) = claims s
   \<and> (\<forall>w'. fst (PATCH_wishlists_id s now u p body) = Response 200 (WishlistJson w') \<longrightarrow>
         (\<exists>w\<in>set (wishlists s). wishlist_frame w' = wishlist_frame w))"
proof (cases "parseInt p")
  case None
  then show ?thesis by (simp add: PATCH_wishlists_id_def)
next
  case (Some wid)
  show ?thesis
  proof (cases "insertWishlistSchema True body")
    case (Inl issues)
    with Some show ?thesis by (simp add: PATCH_wishlists_id_def)
  next
    case (Inr d)
    obtain r s' where upd: "updateWishlist s now wid u d = (r, s')"
      by (cases "updateWishlist s now wid u d")
    note t = updateWishlist_tables [OF upd insertWishlistSchema_keys [OF Inr]]
    have "snd (PATCH_wishlists_id s now u p body) = s'"
      using Some Inr upd
      by (simp add: PATCH_wishlists_id_def split: sum.splits option.splits)
    moreover have "\<And>w'. fst (PATCH_wishlists_id s now u p body) = Response 200 (WishlistJson w')
        \<Longrightarrow> r = Inr (Some w')"
      using Some Inr upd
      by (simp add: PATCH_wishlists_id_def split: sum.splits option.splits)
    ultimately show ?thesis
      using t by (metis (no_types, lifting))
  qed
qed

lemma PATCH_items_id_frame:
  "map item_frame (items (snd (PATCH_items_id isURL s now u p body)))
     = map item_frame (items s)
   \<and> users (snd (PATCH_items_id isURL s now u p body)) = users s
   \<and> wishlists (snd (PATCH_items_id isURL s now u p body)) = wishlists s
   \<and> claims (snd (PATCH_items_id isURL s now u p body)) = claims s
   \<and> (\<forall>it'. fst (PATCH_items_id isURL s now u p body) = Response 200 (ItemJson it') \<longrightarrow>
         (\<exists>it\<in>set (items s). item_frame it' = item_frame it))"
proof (cases "parseInt p")
  case None
  then show ?thesis by (simp add: PATCH_items_id_def)
next
  case (Some iid)
  show ?thesis
  proof (cases "insertItemSchema isURL True body")
    case (Inl issues)
    with Some show ?thesis by (simp add: PATCH_items_id_def)
  next
    case (Inr d)
    obtain r s' where upd: "updateItem s now iid u d = (r, s')"
      by (cases "updateItem s now iid u d")
    note t = updateItem_tables [OF upd insertItemSchema_keys [OF Inr]]
    have "snd (PATCH_items_id isURL s now u p body) = s'"
      using Some Inr upd
      by (simp add: PATCH_items_id_def split: sum.splits option.splits)
    moreover have "\<And>it'. fst (PATCH_items_id isURL s now u p body) = Response 200 (ItemJson it')
        \<Longrightarrow> r = Inr (Some it')"
      using Some Inr upd
      by (simp add: PATCH_items_id_def split: sum.splits option.splits)
    ultimately show ?thesis
      using t by (metis (no_types, lifting))
  qed
qed

text \<open>
  C9. Whatever the parameter and the body of a PATCH request are, and whatever its
  outcome: after PATCH /api/wishlists/:id every wishlist row has the \<open>id\<close>, \<open>userId\<close>,
  \<open>shareToken\<close> and \<open>createdAt\<close> it had (only \<open>name\<close>, \<open>description\<close> and \<open>updatedAt\<close>, the
  other columns of the table, can differ), the other tables are as before, and the
  wishlist returned with a 200 agrees in these four columns with a wishlist of the state
  before; after PATCH /api/items/:id every item row has the \<open>id\<close>, \<open>wishlistId\<close> and
  \<open>createdAt\<close> it had, the other tables are as before, and the item returned with a 200
  agrees in these three columns with an item of the state before.
\<close>

theorem update_frame:
  "map wishlist_frame (wishlists (snd (PATCH_wishlists_id s now u p body)))
     = map wishlist_frame (wishlists s)
   \<and> users (snd (PATCH_wishlists_id s now u p body)) = users s
   \<and> items (snd (PATCH_wishlists_id s now u p body)) = items s
   \<and> claims (snd (PATCH_wishlists_id s now u p body)) = claims s
   \<and> (\<forall>w'. fst (PATCH_wishlists_id s now u p body) = Response 200 (WishlistJson w') \<longrightarrow>
         (\<exists>w\<in>set (wishlists s). wishlist_frame w' = wishlist_frame w))
   \<and> map item_frame (items (snd (PATCH_items_id isURL s now u q body')))
     = map item_frame (items s)
   \<and> users (snd (PATCH_items_id isURL s now u q body')) = users s
   \<and> wishlists (snd (PATCH_items_id isURL s now u q body')) = wishlists s
   \<and> claims (snd (PATCH_items_id isURL s now u q body')) = claims s
   \<and> (\<forall>it'. fst (PATCH_items_id isURL s now u q body') = Response 200 (ItemJson it') \<longrightarrow>
         (\<exists>it\<in>set (items s). item_frame it' = item_frame it))"
  using PATCH_wishlists_id_frame [of s now u p body]
    PATCH_items_id_frame [of isURL s now u q body']
  by blast

theorem update_frame_witness:
  "PATCH_wishlists_id shop 8 ''alice'' (js ''1'') hostile_body =
     (Response 200 (WishlistJson (birthday\<lparr>wishlist_name := ''Mine'', wishlist_updatedAt := 8\<rparr>)),
      shop\<lparr>wishlists := [birthday\<lparr>wishlist_name := ''Mine'', wishlist_updatedAt := 8\<rparr>]\<rparr>)
   \<and> PATCH_items_id (\<lambda>v. True) shop 8 ''alice'' (js ''1'') hostile_body =
     (Response 200 (ItemJson (headphones\<lparr>item_name := ''Mine'', item_updatedAt := 8\<rparr>)),
      shop\<lparr>items := [headphones\<lparr>item_name := ''Mine'', item_updatedAt := 8\<rparr>]\<rparr>)
   \<and> (\<exists>w\<in>set (wishlists shop). wishlist_frame
         (birthday\<lparr>wishlist_name := ''Mine'', wishlist_updatedAt := 8\<rparr>) = wishlist_frame w)
   \<and> (\<exists>it\<in>set (items shop). item_frame
         (headphones\<lparr>item_name := ''Mine'', item_updatedAt := 8\<rparr>) = item_frame it)"
proof -
  have w: "PATCH_wishlists_id shop 8 ''alice'' (js ''1'') hostile_body =
     (Response 200 (WishlistJson (birthday\<lparr>wishlist_name := ''Mine'', wishlist_updatedAt := 8\<rparr>)),
      shop\<lparr>wishlists := [birthday\<lparr>wishlist_name := ''Mine'', wishlist_updatedAt := 8\<rparr>]\<rparr>)"
    by (simp add: parse_1 PATCH_wishlists_id_def hostile_body_def insertWishlistSchema_def
        zString_def nameRule_def updateWishlist_def set_wishlist_def wishlist_row_error_def
        orKeep_def pg_integer_def Let_def shop_defs)
  have i: "PATCH_items_id (\<lambda>v. True) shop 8 ''alice'' (js ''1'') hostile_body =
     (Response 200 (ItemJson (headphones\<lparr>item_name := ''Mine'', item_updatedAt := 8\<rparr>)),
      shop\<lparr>items := [headphones\<lparr>item_name := ''Mine'', item_updatedAt := 8\<rparr>]\<rparr>)"
    by (simp add: parse_1 PATCH_items_id_def hostile_body_def insertItemSchema_def
        zString_def nameRule_def urlRule_def updateItem_def owned_item_def set_item_def
        item_row_error_def orKeep_def pg_integer_def Let_def shop_defs)
  show ?thesis
    using update_frame [of shop 8 "''alice''" "js ''1''" hostile_body "\<lambda>v. True" "js ''1''"
        hostile_body] w i
    by simp
qed

subsection \<open>The Invalid-ID branch\<close>

lemma radixDigit_10: "radixDigit 10 c \<noteq> None \<longleftrightarrow> decimalDigit c"
  by (auto simp: radixDigit_def decimalDigit_def Let_def)

lemma radixDigit_16: "radixDigit 16 c \<noteq> None \<longleftrightarrow> hexDigit c"
  by (auto simp: radixDigit_def hexDigit_def decimalDigit_def Let_def)

lemma radixDigit_None:
  "radixDigit 10 c = None \<longleftrightarrow> \<not> decimalDigit c"
  "radixDigit 16 c = None \<longleftrightarrow> \<not> hexDigit c"
  "(\<exists>y. radixDigit 10 c = Some y) \<longleftrightarrow> decimalDigit c"
  "(\<exists>y. radixDigit 16 c = Some y) \<longleftrightarrow> hexDigit c"
  using radixDigit_10 [of c] radixDigit_16 [of c] by auto

lemma parseInt_NaN: "parseInt p = None \<longleftrightarrow> \<not> numericPrefix p"
proof (cases "stripSign (dropWhile isStrWhiteSpaceChar p)")
  case Nil
  then show ?thesis
    by (simp add: parseInt_def numericPrefix_def hasHexPrefix_def Let_def)
next
  case (Cons a rest)
  note outer = Cons
  show ?thesis
  proof (cases rest)
    case Nil
    with outer show ?thesis
      by (simp add: parseInt_def numericPrefix_def hasHexPrefix_def Let_def radixDigit_None)
  next
    case (Cons b rest')
    show ?thesis
    proof (cases "a = 48 \<and> (b = 120 \<or> b = 88)")
      case True
      with outer Cons show ?thesis
        by (cases rest')
          (auto simp: parseInt_def numericPrefix_def hasHexPrefix_def Let_def radixDigit_None)
    next
      case False
      with outer Cons show ?thesis
        by (auto simp: parseInt_def numericPrefix_def hasHexPrefix_def Let_def radixDigit_None)
    qed
  qed
qed

lemma invalid_id_handle:
  assumes "path_id r = Some p"
  shows "invalid_id (fst (handle isURL s now r)) \<longleftrightarrow> parseInt p = None"
proof (cases r)
  case (GetWishlist u p')
  with assms show ?thesis
    by (auto simp: invalid_id_def GET_wishlists_id_def split: option.splits sum.splits)
next
  case (CreateWishlist u body tok)
  with assms show ?thesis by simp
next
  case (UpdateWishlist u p' body)
  with assms show ?thesis
    by (auto simp: invalid_id_def PATCH_wishlists_id_def
        split: option.splits sum.splits prod.splits)
next
  case (DeleteWishlist u p')
  with assms show ?thesis
    by (auto simp: invalid_id_def DELETE_wishlists_id_def
        split: option.splits sum.splits prod.splits)
next
  case (CreateItem u p' body)
  with assms show ?thesis
    by (auto simp: invalid_id_def POST_wishlists_items_def
        split: option.splits sum.splits prod.splits)
next
  case (UpdateItem u p' body)
  with assms show ?thesis
    by (auto simp: invalid_id_def PATCH_items_id_def
        split: option.splits sum.splits prod.splits)
next
  case (DeleteItem u p')
  with assms show ?thesis
    by (auto simp: invalid_id_def DELETE_items_id_def
        split: option.splits sum.splits prod.splits)
next
  case (ClaimItem u p')
  with assms show ?thesis
    by (auto simp: invalid_id_def POST_items_claim_def claim_checks_def claim_insert_def
        split: option.splits sum.splits prod.splits if_splits)
next
  case (UnclaimItem u p')
  with assms show ?thesis
    by (auto simp: invalid_id_def DELETE_items_claim_def
        split: option.splits sum.splits prod.splits)
qed

lemma handle_parseInt:
  assumes "path_id r = Some p" and "parseInt q = parseInt p"
  shows "handle isURL s now (with_path_id q r) = handle isURL s now r"
  using assms
  by (cases r)
    (simp_all add: GET_wishlists_id_def PATCH_wishlists_id_def DELETE_wishlists_id_def
      POST_wishlists_items_def PATCH_items_id_def DELETE_items_id_def POST_items_claim_def
      DELETE_items_claim_def)

lemma parse_12abc: "parseInt (js ''12abc'') = Some 12"
  by (simp add: parseInt_defs)

lemma parse_12: "parseInt (js ''12'') = Some 12"
  by (simp add: parseInt_defs)

lemma parse_0x: "parseInt (js ''0x'') = None"
  by (simp add: parseInt_defs)

lemma parse_0x1f: "parseInt (js ''0x1f'') = Some 31"
  by (simp add: parseInt_defs)

text \<open>
  C10, as the code has it. On every route with an id in its path, the 400 Invalid-ID
  response is given exactly when \<open>parseInt\<close> of the parameter is \<^verbatim>\<open>NaN\<close>, that is, when
  the parameter, after leading white space and an optional sign, does not go on with a
  decimal digit or, if it goes on with \<^verbatim>\<open>0x\<close> or \<^verbatim>\<open>0X\<close>, has no hexadecimal digit after
  these two characters. The handler depends on the parameter only through the number
  parsed: two parameters with the same number are handled alike, and so \<^verbatim>\<open>12abc\<close> is not
  rejected but handled as the id 12.
\<close>

theorem invalid_id_iff_NaN:
  assumes "path_id r = Some p"
  shows "(invalid_id (fst (handle isURL s now r)) \<longleftrightarrow> parseInt p = None)
       \<and> (parseInt p = None \<longleftrightarrow> \<not> numericPrefix p)
       \<and> (parseInt q = parseInt p \<longrightarrow>
            handle isURL s now (with_path_id q r) = handle isURL s now r)
       \<and> parseInt (js ''12abc'') = Some 12 \<and> parseInt (js ''12'') = Some 12"
  using invalid_id_handle [OF assms] parseInt_NaN [of p] handle_parseInt [OF assms]
    parse_12abc parse_12
  by blast

theorem invalid_id_iff_NaN_witness:
  "path_id (ClaimItem ''bob'' (js ''12'')) = Some (js ''12'')
   \<and> \<not> invalid_id (fst (handle (\<lambda>v. True) shop 5 (ClaimItem ''bob'' (js ''12''))))
   \<and> numericPrefix (js ''12'')
   \<and> handle (\<lambda>v. True) shop 5 (ClaimItem ''bob'' (js ''12abc'')) =
       handle (\<lambda>v. True) shop 5 (ClaimItem ''bob'' (js ''12''))
   \<and> fst (handle (\<lambda>v. True) shop 5 (ClaimItem ''bob'' (js ''12abc''))) =
       Response 404 (Message ''Item not found'')"
proof -
  have p: "path_id (ClaimItem ''bob'' (js ''12'')) = Some (js ''12'')" by simp
  have e: "parseInt (js ''12abc'') = parseInt (js ''12'')" by (simp add: parse_12abc parse_12)
  have w: "with_path_id (js ''12abc'') (ClaimItem ''bob'' (js ''12'')) =
      ClaimItem ''bob'' (js ''12abc'')" by simp
  have r: "fst (handle (\<lambda>v. True) shop 5 (ClaimItem ''bob'' (js ''12''))) =
      Response 404 (Message ''Item not found'')"
    by (simp add: parse_12 POST_items_claim_def claim_checks_def getItem_def pg_integer_def
        shop_defs)
  show ?thesis
    using invalid_id_iff_NaN [OF p, of "\<lambda>v. True" shop 5 "js ''12abc''"] p e w r parse_12
    by simp
qed

text \<open>
  C10 as stated fails at the parameter \<^verbatim>\<open>0x\<close>: it begins with the decimal integer 0,
  and is rejected with the 400 of the Invalid-ID branch all the same. The parameter
  \<^verbatim>\<open>0x1f\<close> begins with the decimal integer 0 as well, and is handled as the id 31.
\<close>

theorem invalid_id_counterexample:
  "decimalIntegerPrefix (js ''0x'')
   \<and> fst (GET_wishlists_id shop ''alice'' (js ''0x'')) =
       Response 400 (Message ''Invalid wishlist ID'')
   \<and> fst (POST_items_claim shop 5 ''bob'' (js ''0x'')) =
       Response 400 (Message ''Invalid item ID'')
   \<and> decimalIntegerPrefix (js ''0x1f'') \<and> parseInt (js ''0x1f'') = Some 31
   \<and> parseInt (js ''0'') = Some 0"
  by (simp add: parse_0x parse_0x1f GET_wishlists_id_def POST_items_claim_def)
    (simp add: decimalIntegerPrefix_def decimalDigit_def stripSign_def parseInt_defs)

end
